theory Spec2Isabelle
  imports Complex_Main "HOL-Library.Word" "HOL-Library.Sublist" "HOL-Library.AList"
begin

section \<open>Flux LoRA bridge: the provider-fallback generation core\<close>

text \<open>
  A shallow embedding of the parts of \<^verbatim>\<open>flux_lora_bridge.py\<close> that locate, fetch and
  validate image data, select and prune LoRAs, resolve LoRA sources against the persisted
  Runware mapping, and drive the ordered provider fallback loop.

  Python \<^verbatim>\<open>bytes\<close> are lists of 8-bit words. Python \<^verbatim>\<open>str\<close> is \<open>string\<close>: the
  code points below 256. Python \<^verbatim>\<open>float\<close> values are only carried around by this
  code (weights, cfg scale) or tested for zero, and are modelled as rationals. Exceptions
  are values of the type \<open>error\<close>; a function that may raise returns \<open>error + 'a\<close>.
\<close>

subsection \<open>Strings and bytes\<close>

type_synonym byte = "8 word"
type_synonym bytes = "byte list"

text \<open>\<^verbatim>\<open>str.isspace\<close> on one code point below 256.\<close>

definition py_isspace :: "char \<Rightarrow> bool" where
  "py_isspace c = ((of_char c :: nat) \<in> set [9, 10, 11, 12, 13, 28, 29, 30, 31, 32, 133, 160])"

text \<open>\<^verbatim>\<open>str.strip()\<close>: leading and trailing whitespace removed.\<close>

definition py_strip :: "string \<Rightarrow> string" where
  "py_strip s = rev (dropWhile py_isspace (rev (dropWhile py_isspace s)))"

text \<open>\<^verbatim>\<open>str.lower()\<close> on code points below 256 (ASCII and Latin-1 capitals).\<close>

definition py_lower_char :: "char \<Rightarrow> char" where
  "py_lower_char c =
     (let n = (of_char c :: nat)
      in if (65 \<le> n \<and> n \<le> 90) \<or> (192 \<le> n \<and> n \<le> 222 \<and> n \<noteq> 215)
         then char_of (n + 32) else c)"

definition py_lower :: "string \<Rightarrow> string" where
  "py_lower s = map py_lower_char s"

text \<open>\<^verbatim>\<open>s.startswith("http://") or s.startswith("https://")\<close>.\<close>

definition is_http_url :: "string \<Rightarrow> bool" where
  "is_http_url s = (prefix ''http://'' s \<or> prefix ''https://'' s)"

subsection \<open>Errors\<close>

text \<open>
  One constructor for each exception the modelled code raises or lets through. The text
  of a message is kept as the data the source formats into it.
\<close>

datatype error =
    ImageTooSmall string nat
      \<comment> \<open>\<^verbatim>\<open>ValueError("[p] Image data too small (n bytes)")\<close>\<close>
  | NotValidImage string bytes
      \<comment> \<open>\<^verbatim>\<open>ValueError("[p] Downloaded data is not a valid image (first bytes: ...)")\<close>\<close>
  | NoImageCandidate string
      \<comment> \<open>\<^verbatim>\<open>ValueError("[p] No image candidate found in payload")\<close>\<close>
  | UnsupportedPayload string
      \<comment> \<open>\<^verbatim>\<open>ValueError("[p] Unsupported image payload format")\<close>\<close>
  | HTTPStatusError int
      \<comment> \<open>raised by \<^verbatim>\<open>raise_for_status()\<close>\<close>
  | TransportError string
      \<comment> \<open>the HTTP request itself failed (connection, timeout)\<close>
  | NoImageURL
      \<comment> \<open>\<^verbatim>\<open>RuntimeError("Together returned no image URL")\<close>\<close>
  | Base64Error
      \<comment> \<open>\<^verbatim>\<open>binascii.Error\<close> out of \<^verbatim>\<open>base64.b64decode\<close>\<close>
  | KeyError string
  | UnknownProvider string
      \<comment> \<open>\<^verbatim>\<open>Exception("Unknown provider: p")\<close>\<close>
  | UploadStatus int
      \<comment> \<open>\<^verbatim>\<open>Exception("Upload failed with status n")\<close>\<close>
  | RunwareError
      \<comment> \<open>\<^verbatim>\<open>Exception("Runware error: ...")\<close>\<close>
  | ProviderFailure string
      \<comment> \<open>any other exception, with its text\<close>

subsection \<open>The image validator\<close>

text \<open>
  \<^verbatim>\<open>_validate_image_bytes(data, provider_name)\<close>: returns \<^verbatim>\<open>None\<close> or raises.
\<close>

definition validate_image_bytes :: "bytes \<Rightarrow> string \<Rightarrow> error + unit" where
  "validate_image_bytes data provider_name =
     (if length data < 4 then Inl (ImageTooSmall provider_name (length data))
      else if \<not> (take 3 data = [0xFF, 0xD8, 0xFF]
                \<or> take 4 data = [0x89, 0x50, 0x4E, 0x47]
                \<or> take 4 data = [0x52, 0x49, 0x46, 0x46]
                \<or> take 4 data = [0x47, 0x49, 0x46, 0x38])
      then Inl (NotValidImage provider_name (take 16 data))
      else Inr ())"

text \<open>
  The four magic numbers as the specification lists them: JPEG \<^verbatim>\<open>FFD8FF\<close>, PNG
  \<^verbatim>\<open>89504E47\<close>, WEBP \<^verbatim>\<open>RIFF....WEBP\<close> (the bytes \<^verbatim>\<open>RIFF\<close>, any four bytes, the
  bytes \<^verbatim>\<open>WEBP\<close>), GIF \<^verbatim>\<open>47494638\<close>.
\<close>

definition spec_magic_prefix :: "bytes \<Rightarrow> bool" where
  "spec_magic_prefix data =
     (prefix [0xFF, 0xD8, 0xFF] data
      \<or> prefix [0x89, 0x50, 0x4E, 0x47] data
      \<or> (prefix [0x52, 0x49, 0x46, 0x46] data \<and> take 4 (drop 8 data) = [0x57, 0x45, 0x42, 0x50])
      \<or> prefix [0x47, 0x49, 0x46, 0x38] data)"

subsection \<open>JSON values and the payload extractor\<close>

text \<open>
  A decoded provider response: \<^verbatim>\<open>None\<close>, a bool, a number, a string, raw bytes, a list,
  or a dict. A dict is an association list in insertion order.
\<close>

datatype json =
    JNull
  | JBool bool
  | JNum rat
  | JStr string
  | JBytes bytes
  | JList "json list"
  | JDict "(string \<times> json) list"

text \<open>Python truthiness, as \<^verbatim>\<open>payload[key]\<close> is tested in an \<^verbatim>\<open>if\<close>.\<close>

fun truthy :: "json \<Rightarrow> bool" where
  "truthy JNull = False"
| "truthy (JBool b) = b"
| "truthy (JNum n) = (n \<noteq> 0)"
| "truthy (JStr s) = (s \<noteq> [])"
| "truthy (JBytes b) = (b \<noteq> [])"
| "truthy (JList xs) = (xs \<noteq> [])"
| "truthy (JDict d) = (d \<noteq> [])"

datatype candidate = CBytes bytes | CStr string

definition direct_keys :: "string list" where
  "direct_keys = [''imageURL'', ''image_url'', ''imageUrl'', ''image'', ''url'', ''b64_json'', ''base64'']"

definition container_keys :: "string list" where
  "container_keys = [''data'', ''output'', ''outputs'', ''images'', ''result'', ''results'']"

text \<open>
  \<^verbatim>\<open>_extract_image_candidate(payload)\<close>. The loops of the source are the functions
  \<open>extract_items\<close> (over a list), \<open>extract_keys\<close> (over the direct keys when the flag is
  \<open>True\<close>, over the container keys when it is \<open>False\<close>) and \<open>extract_values\<close> (over
  \<^verbatim>\<open>payload.values()\<close>); \<open>extract_key\<close> is the body of a key loop:
  \<^verbatim>\<open>if key in payload and payload[key]\<close> for a direct key,
  \<^verbatim>\<open>if key in payload and payload[key] is not None\<close> for a container key.
\<close>

fun extract_image_candidate :: "json \<Rightarrow> candidate option"
  and extract_items :: "json list \<Rightarrow> candidate option"
  and extract_keys :: "bool \<Rightarrow> string list \<Rightarrow> (string \<times> json) list \<Rightarrow> candidate option"
  and extract_key :: "bool \<Rightarrow> string \<Rightarrow> (string \<times> json) list \<Rightarrow> candidate option"
  and extract_values :: "(string \<times> json) list \<Rightarrow> candidate option"
where
  "extract_image_candidate JNull = None"
| "extract_image_candidate (JBytes b) = Some (CBytes b)"
| "extract_image_candidate (JStr s) = Some (CStr s)"
| "extract_image_candidate (JList items) = extract_items items"
| "extract_image_candidate (JDict d) =
     (case extract_keys True direct_keys d of
        Some cand \<Rightarrow> Some cand
      | None \<Rightarrow>
         (case extract_keys False container_keys d of
            Some cand \<Rightarrow> Some cand
          | None \<Rightarrow> extract_values d))"
| "extract_image_candidate (JBool b) = None"
| "extract_image_candidate (JNum n) = None"
| "extract_items [] = None"
| "extract_items (item # items) =
     (case extract_image_candidate item of Some cand \<Rightarrow> Some cand | None \<Rightarrow> extract_items items)"
| "extract_keys direct [] d = None"
| "extract_keys direct (key # keys) d =
     (case extract_key direct key d of Some cand \<Rightarrow> Some cand | None \<Rightarrow> extract_keys direct keys d)"
| "extract_key direct key [] = None"
| "extract_key direct key ((k, v) # kvs) =
     (if k = key
      then (if (if direct then truthy v else v \<noteq> JNull) then extract_image_candidate v else None)
      else extract_key direct key kvs)"
| "extract_values [] = None"
| "extract_values ((k, v) # kvs) =
     (case extract_image_candidate v of Some cand \<Rightarrow> Some cand | None \<Rightarrow> extract_values kvs)"

text \<open>
  The extractor as the specification words it, for comparison: for an object, each direct
  key that is present is searched, in the declared order, then each container key that is
  present, then every value in insertion order, and the first search that yields a
  candidate wins; for an array, the first element that yields a candidate wins; a string
  or bytes value is the candidate itself; anything else yields none.
\<close>

fun spec_extract :: "json \<Rightarrow> candidate option"
  and spec_items :: "json list \<Rightarrow> candidate option"
  and spec_keys :: "string list \<Rightarrow> (string \<times> json) list \<Rightarrow> candidate option"
  and spec_key :: "string \<Rightarrow> (string \<times> json) list \<Rightarrow> candidate option"
  and spec_values :: "(string \<times> json) list \<Rightarrow> candidate option"
where
  "spec_extract (JStr s) = Some (CStr s)"
| "spec_extract (JBytes b) = Some (CBytes b)"
| "spec_extract (JList items) = spec_items items"
| "spec_extract (JDict d) =
     (case spec_keys direct_keys d of
        Some cand \<Rightarrow> Some cand
      | None \<Rightarrow>
         (case spec_keys container_keys d of
            Some cand \<Rightarrow> Some cand
          | None \<Rightarrow> spec_values d))"
| "spec_extract JNull = None"
| "spec_extract (JBool b) = None"
| "spec_extract (JNum n) = None"
| "spec_items [] = None"
| "spec_items (item # items) =
     (case spec_extract item of Some cand \<Rightarrow> Some cand | None \<Rightarrow> spec_items items)"
| "spec_keys [] d = None"
| "spec_keys (key # keys) d =
     (case spec_key key d of Some cand \<Rightarrow> Some cand | None \<Rightarrow> spec_keys keys d)"
| "spec_key key [] = None"
| "spec_key key ((k, v) # kvs) = (if k = key then spec_extract v else spec_key key kvs)"
| "spec_values [] = None"
| "spec_values ((k, v) # kvs) =
     (case spec_extract v of Some cand \<Rightarrow> Some cand | None \<Rightarrow> spec_values kvs)"

text \<open>
  The payloads in which no object, at any depth, holds an empty string or empty bytes
  under one of the direct keys.
\<close>

fun no_empty_direct :: "json \<Rightarrow> bool"
  and no_empty_direct_items :: "json list \<Rightarrow> bool"
  and no_empty_direct_entries :: "(string \<times> json) list \<Rightarrow> bool"
where
  "no_empty_direct (JList items) = no_empty_direct_items items"
| "no_empty_direct (JDict d) = no_empty_direct_entries d"
| "no_empty_direct JNull = True"
| "no_empty_direct (JBool b) = True"
| "no_empty_direct (JNum n) = True"
| "no_empty_direct (JStr s) = True"
| "no_empty_direct (JBytes b) = True"
| "no_empty_direct_items [] = True"
| "no_empty_direct_items (item # items) = (no_empty_direct item \<and> no_empty_direct_items items)"
| "no_empty_direct_entries [] = True"
| "no_empty_direct_entries ((k, v) # kvs) =
     ((k \<in> set direct_keys \<longrightarrow> v \<noteq> JStr [] \<and> v \<noteq> JBytes [])
      \<and> no_empty_direct v \<and> no_empty_direct_entries kvs)"

subsection \<open>The asset fetcher\<close>

record http_response =
  status_code :: int
  content :: bytes

text \<open>
  \<^verbatim>\<open>Response.raise_for_status()\<close> of the httpx library, which is not part of this
  repository: it returns when the status is a success status (200 to 299) and raises
  \<^verbatim>\<open>HTTPStatusError\<close> for every other status.
\<close>

definition raise_for_status :: "http_response \<Rightarrow> error + unit" where
  "raise_for_status resp =
     (if 200 \<le> status_code resp \<and> status_code resp \<le> 299 then Inr ()
      else Inl (HTTPStatusError (status_code resp)))"

text \<open>
  The network is a function from a URL to the outcome of \<^verbatim>\<open>client.get(url)\<close>; the
  base64 decoders of the standard library are functions that return \<open>None\<close> where
  \<^verbatim>\<open>b64decode\<close> raises.
\<close>

type_synonym http_get = "string \<Rightarrow> error + http_response"
type_synonym b64decode = "string \<Rightarrow> bytes option"

text \<open>
  The download both \<^verbatim>\<open>_resolve_image_bytes_from_payload\<close> and
  \<^verbatim>\<open>TogetherAIClient.generate\<close> perform:
  \<^verbatim>\<open>r = await client.get(url); r.raise_for_status(); return r.content\<close>.
\<close>

definition get_checked :: "http_get \<Rightarrow> string \<Rightarrow> error + bytes" where
  "get_checked get u =
     (case get u of
        Inl e \<Rightarrow> Inl e
      | Inr img_response \<Rightarrow>
          (case raise_for_status img_response of
             Inl e \<Rightarrow> Inl e
           | Inr _ \<Rightarrow> Inr (content img_response)))"

definition strip_data_uri_prefix :: "string \<Rightarrow> string" where
  "strip_data_uri_prefix v =
     (if prefix ''data:'' v \<and> CHR '','' \<in> set v
      then tl (dropWhile (\<lambda>c. c \<noteq> CHR '','') v) else v)"

definition try_decode_base64 :: "b64decode \<Rightarrow> string \<Rightarrow> bytes option" where
  "try_decode_base64 b64 v =
     (let cand = py_strip (strip_data_uri_prefix v)
      in if is_http_url cand then None else b64 cand)"

definition resolve_image_bytes_from_payload ::
    "http_get \<Rightarrow> b64decode \<Rightarrow> json \<Rightarrow> string \<Rightarrow> error + bytes" where
  "resolve_image_bytes_from_payload get b64 payload provider_name =
     (case extract_image_candidate payload of
        None \<Rightarrow> Inl (NoImageCandidate provider_name)
      | Some (CBytes b) \<Rightarrow> Inr b
      | Some (CStr s) \<Rightarrow>
          (if is_http_url s then get_checked get s
           else (case try_decode_base64 b64 s of
                   Some decoded \<Rightarrow> Inr decoded
                 | None \<Rightarrow> Inl (UnsupportedPayload provider_name))))"

subsection \<open>The Together client: from the SDK response to image bytes\<close>

text \<open>
  The SDK answers with an object whose \<^verbatim>\<open>data\<close> is a list of choices, each with the
  attributes \<^verbatim>\<open>url\<close> and \<^verbatim>\<open>b64_json\<close> (either may be \<^verbatim>\<open>None\<close>), or with a plain
  dict, or with something else. A \<^verbatim>\<open>data\<close> that is \<^verbatim>\<open>None\<close> takes the same branch as
  an empty list.
\<close>

record image_choice =
  ic_url :: "string option"
  ic_b64_json :: "string option"

datatype together_response =
    SdkResponse "image_choice list"
  | DictResponse "(string \<times> json) list"
  | OtherResponse

definition str_truthy :: "string option \<Rightarrow> bool" where
  "str_truthy v = (case v of None \<Rightarrow> False | Some s \<Rightarrow> s \<noteq> [])"

definition together_image_bytes ::
    "http_get \<Rightarrow> b64decode \<Rightarrow> b64decode \<Rightarrow> together_response \<Rightarrow> error + bytes" where
  "together_image_bytes get b64_strict b64_lenient response =
     (case response of
        SdkResponse [] \<Rightarrow> Inl NoImageURL
      | SdkResponse (first # _) \<Rightarrow>
          (case ic_url first of
             Some url_val \<Rightarrow>
               (if url_val \<noteq> [] then get_checked get url_val
                else if str_truthy (ic_b64_json first)
                then (case ic_b64_json first of
                        Some b64_val \<Rightarrow>
                          (case b64_lenient b64_val of Some bs \<Rightarrow> Inr bs | None \<Rightarrow> Inl Base64Error)
                      | None \<Rightarrow> Inl NoImageURL)
                else Inl NoImageURL)
           | None \<Rightarrow>
               (case ic_b64_json first of
                  Some b64_val \<Rightarrow>
                    (if b64_val \<noteq> []
                     then (case b64_lenient b64_val of Some bs \<Rightarrow> Inr bs | None \<Rightarrow> Inl Base64Error)
                     else Inl NoImageURL)
                | None \<Rightarrow> Inl NoImageURL))
      | DictResponse d \<Rightarrow> resolve_image_bytes_from_payload get b64_strict (JDict d) ''Together''
      | OtherResponse \<Rightarrow> Inl NoImageURL)"

subsection \<open>LoRA entries and the selection engine\<close>

text \<open>
  An entry of the LoRA dictionary as the modelled functions read it: a key that may be
  absent is an option. A matched LoRA is the dict
  \<^verbatim>\<open>{"id": ..., "data": ..., "reason": ...}\<close> that \<^verbatim>\<open>match_loras_by_keywords\<close> builds.
\<close>

record lora_data =
  ld_url :: "string option"
  ld_weight :: "rat option"
  ld_name :: "string option"
  ld_category :: "string option"
  ld_rank :: "int option"

record matched_lora =
  m_id :: string
  m_data :: lora_data
  m_reason :: string

text \<open>\<^verbatim>\<open>Config.ROLE_CAPS\<close>.\<close>

definition ROLE_CAPS :: "(string \<times> int) list" where
  "ROLE_CAPS = [(''character'', 6), (''nsfw'', 4), (''expression'', 2), (''general'', 2), (''misc'', 1)]"

text \<open>The sort key of \<^verbatim>\<open>match_loras_by_keywords\<close>: \<^verbatim>\<open>x["data"].get("rank", 999)\<close>\<close>

definition rank_of :: "matched_lora \<Rightarrow> int" where
  "rank_of item = (case ld_rank (m_data item) of None \<Rightarrow> 999 | Some k \<Rightarrow> k)"

text \<open>A complete entry with the given id, url, category and rank, for examples.\<close>

definition mk_lora :: "string \<Rightarrow> string \<Rightarrow> string \<Rightarrow> int \<Rightarrow> matched_lora" where
  "mk_lora i u cat rk =
     \<lparr>m_id = i,
      m_data = \<lparr>ld_url = Some u, ld_weight = Some 1, ld_name = Some i,
                ld_category = Some cat, ld_rank = Some rk\<rparr>,
      m_reason = ''permanent''\<rparr>"

text \<open>\<^verbatim>\<open>role = (item.get("data", {}) or {}).get("category", "misc")\<close>\<close>

definition role_of :: "matched_lora \<Rightarrow> string" where
  "role_of item = (case ld_category (m_data item) of None \<Rightarrow> ''misc'' | Some r \<Rightarrow> r)"

text \<open>\<^verbatim>\<open>cap = caps.get(role, caps.get("misc", 999))\<close>\<close>

definition cap_of :: "(string \<times> int) list \<Rightarrow> string \<Rightarrow> int" where
  "cap_of caps role =
     (case map_of caps role of
        Some c \<Rightarrow> c
      | None \<Rightarrow> (case map_of caps ''misc'' of Some c \<Rightarrow> c | None \<Rightarrow> 999))"

text \<open>
  The loop of \<^verbatim>\<open>apply_role_caps\<close>. \<open>counts\<close> is the dict of running counts;
  \<open>count_of\<close> is \<^verbatim>\<open>counts[role]\<close> after \<^verbatim>\<open>counts.setdefault(role, 0)\<close>.
\<close>

definition count_of :: "(string \<rightharpoonup> nat) \<Rightarrow> string \<Rightarrow> nat" where
  "count_of counts role = (case counts role of None \<Rightarrow> 0 | Some k \<Rightarrow> k)"

fun role_caps_loop ::
    "(string \<times> int) list \<Rightarrow> matched_lora list \<Rightarrow> (string \<rightharpoonup> nat) \<Rightarrow> matched_lora list" where
  "role_caps_loop caps [] counts = []"
| "role_caps_loop caps (item # items) counts =
     (let role = role_of item;
          cap = cap_of caps role;
          n = count_of counts role
      in if cap \<le> int n then role_caps_loop caps items (counts(role \<mapsto> n))
         else item # role_caps_loop caps items (counts(role \<mapsto> n + 1)))"

definition apply_role_caps :: "(string \<times> int) list \<Rightarrow> matched_lora list \<Rightarrow> matched_lora list" where
  "apply_role_caps caps matched_loras =
     (if caps = [] then matched_loras else role_caps_loop caps matched_loras Map.empty)"

text \<open>\<^verbatim>\<open>src_str = lora_data.get('data', {}).get('url', '').strip()\<close>\<close>

definition src_of :: "matched_lora \<Rightarrow> string" where
  "src_of lora = py_strip (case ld_url (m_data lora) of None \<Rightarrow> [] | Some u \<Rightarrow> u)"

fun provider_based_lora_url_pruning :: "matched_lora list \<Rightarrow> string \<Rightarrow> matched_lora list" where
  "provider_based_lora_url_pruning [] provider = []"
| "provider_based_lora_url_pruning (lora # lora_list) provider =
     (if CHR '':'' \<in> set (src_of lora) \<and> CHR ''@'' \<in> set (src_of lora) \<and> provider \<noteq> ''runware''
      then provider_based_lora_url_pruning lora_list provider
      else lora # provider_based_lora_url_pruning lora_list provider)"

text \<open>
  The inline-spec shape \<^verbatim>\<open><token>:<token>@<token>\<close> of the specification, read as
  broadly as its words allow: three non-empty tokens of any characters, a colon after the
  first and an at-sign after the second.
\<close>

definition spec_inline_shape :: "string \<Rightarrow> bool" where
  "spec_inline_shape s =
     (\<exists>i \<in> set [0..<length s]. \<exists>j \<in> set [0..<length s].
        0 < i \<and> s ! i = CHR '':'' \<and> i + 1 < j \<and> s ! j = CHR ''@'' \<and> j + 1 < length s)"

text \<open>The entries a provider client receives, built by \<^verbatim>\<open>build_lora_list\<close>.\<close>

record lora =
  l_url :: string
  l_weight :: rat
  l_name :: string
  l_id :: string

fun build_lora_loop :: "matched_lora list \<Rightarrow> int \<Rightarrow> lora list \<Rightarrow> error + lora list" where
  "build_lora_loop [] max_loras lora_list = Inr lora_list"
| "build_lora_loop (item # items) max_loras lora_list =
     (if max_loras \<le> int (length lora_list) then Inr lora_list
      else (case ld_url (m_data item) of
              None \<Rightarrow> Inl (KeyError ''url'')
            | Some u \<Rightarrow>
               (case ld_weight (m_data item) of
                  None \<Rightarrow> Inl (KeyError ''weight'')
                | Some w \<Rightarrow>
                   (case ld_name (m_data item) of
                      None \<Rightarrow> Inl (KeyError ''name'')
                    | Some n \<Rightarrow>
                       build_lora_loop items max_loras
                         (lora_list @ [\<lparr>l_url = u, l_weight = w, l_name = n, l_id = m_id item\<rparr>])))))"

definition build_lora_list :: "matched_lora list \<Rightarrow> int \<Rightarrow> error + lora list" where
  "build_lora_list matched_loras max_loras = build_lora_loop matched_loras max_loras []"

subsection \<open>Provider order and limits\<close>

text \<open>\<^verbatim>\<open>ProviderState.providers\<close>, the fixed order of the attempts.\<close>

definition provider_list :: "string list" where
  "provider_list = [''runware'', ''hfzerogpu'', ''wavespeed'', ''fal'', ''together'', ''pixeldojo'']"

text \<open>The settings of \<^verbatim>\<open>Config\<close> that are read from the process environment.\<close>

record config =
  MAXLORAS_FAL :: int
  MAXLORAS_TOGETHER :: int
  MAXLORAS_HF :: int
  ENABLE_SUMMARIZATION :: bool

definition get_max_loras :: "config \<Rightarrow> string \<Rightarrow> int" where
  "get_max_loras cfg provider =
     (if provider = ''runware'' then 12
      else if provider = ''hfzerogpu'' then MAXLORAS_HF cfg
      else if provider = ''pixeldojo'' then 1
      else if provider = ''wavespeed'' then 4
      else if provider = ''fal'' then MAXLORAS_FAL cfg
      else if provider = ''together'' then MAXLORAS_TOGETHER cfg
      else 15)"

subsection \<open>The fallback orchestrator: step 4 of \<^verbatim>\<open>txt2img\<close>\<close>

record txt2img_request =
  rq_prompt :: string
  rq_negative_prompt :: string
  rq_steps :: int
  rq_cfg_scale :: rat
  rq_width :: int
  rq_height :: int
  rq_seed :: int

record gen_params =
  p_steps :: int
  p_cfg_scale :: rat
  p_width :: int
  p_height :: int
  p_seed :: int

text \<open>
  \<^verbatim>\<open>info_dict\<close>, without \<^verbatim>\<open>total_time_seconds\<close> (a wall-clock measurement), and the
  response built from it.
\<close>

record info_dict =
  i_original_prompt :: string
  i_summarized_prompt :: string
  i_final_prompt :: string
  i_negative_prompt :: string
  i_steps :: int
  i_cfg_scale :: rat
  i_width :: int
  i_height :: int
  i_seed :: int
  i_provider :: string
  i_loras_used :: nat
  i_summarization_enabled :: bool

record txt2img_response =
  images :: "string list"
  parameters :: info_dict
  info :: string

datatype http_exception = HTTPException int string

text \<open>
  A provider client is its \<^verbatim>\<open>generate(prompt, negative_prompt, loras, params)\<close>: image
  bytes or an exception. Every invocation is recorded, in order, as a \<open>generate_call\<close>.
\<close>

type_synonym client = "string \<Rightarrow> string \<Rightarrow> lora list \<Rightarrow> gen_params \<Rightarrow> error + bytes"

record generate_call =
  c_provider :: string
  c_prompt :: string
  c_negative_prompt :: string
  c_loras :: "lora list"
  c_params :: gen_params

text \<open>
  What the loop takes from its surroundings: the configuration, the \<^verbatim>\<open>clients\<close> dict,
  Python's \<^verbatim>\<open>str(e)\<close>, \<^verbatim>\<open>base64.b64encode(...).decode\<close> and \<^verbatim>\<open>json.dumps\<close>.
\<close>

record env =
  e_config :: config
  e_clients :: "(string \<times> client) list"
  e_str :: "error \<Rightarrow> string"
  e_b64encode :: "bytes \<Rightarrow> string"
  e_json_dumps :: "info_dict \<Rightarrow> string"

text \<open>What steps 1 to 3 of \<^verbatim>\<open>txt2img\<close> hand to the generation step.\<close>

record request_ctx =
  x_request :: txt2img_request
  x_summarized_prompt :: string
  x_matched_loras :: "matched_lora list"
  x_full_prompt :: string
  x_full_negative :: string

text \<open>
  The body of the \<^verbatim>\<open>try\<close> for one provider: the response on success, the exception
  otherwise, and the invocations of \<^verbatim>\<open>client.generate\<close> it made.
\<close>

definition attempt ::
    "env \<Rightarrow> request_ctx \<Rightarrow> gen_params \<Rightarrow> string \<Rightarrow> (error + txt2img_response) \<times> generate_call list" where
  "attempt E X params provider =
     (let pre_lora_list = provider_based_lora_url_pruning (x_matched_loras X) provider;
          max_loras = get_max_loras (e_config E) provider
      in case build_lora_list pre_lora_list max_loras of
           Inl e \<Rightarrow> (Inl e, [])
         | Inr lora_list \<Rightarrow>
            (case map_of (e_clients E) provider of
               None \<Rightarrow> (Inl (UnknownProvider provider), [])
             | Some client \<Rightarrow>
                (let call = \<lparr>c_provider = provider, c_prompt = x_full_prompt X,
                              c_negative_prompt = x_full_negative X, c_loras = lora_list,
                              c_params = params\<rparr>
                 in case client (x_full_prompt X) (x_full_negative X) lora_list params of
                      Inl e \<Rightarrow> (Inl e, [call])
                    | Inr image_bytes \<Rightarrow>
                       (case validate_image_bytes image_bytes provider of
                          Inl e \<Rightarrow> (Inl e, [call])
                        | Inr _ \<Rightarrow>
                           (let info_d = \<lparr>i_original_prompt = rq_prompt (x_request X),
                                          i_summarized_prompt = x_summarized_prompt X,
                                          i_final_prompt = x_full_prompt X,
                                          i_negative_prompt = x_full_negative X,
                                          i_steps = rq_steps (x_request X),
                                          i_cfg_scale = rq_cfg_scale (x_request X),
                                          i_width = rq_width (x_request X),
                                          i_height = rq_height (x_request X),
                                          i_seed = p_seed params,
                                          i_provider = provider,
                                          i_loras_used = length lora_list,
                                          i_summarization_enabled = ENABLE_SUMMARIZATION (e_config E)\<rparr>
                            in (Inr \<lparr>images = [e_b64encode E image_bytes],
                                     parameters = info_d,
                                     info = e_json_dumps E info_d\<rparr>, [call]))))))"

text \<open>
  The \<^verbatim>\<open>for\<close> loop over the providers and the \<^verbatim>\<open>HTTPException\<close> after it.
  \<open>last_error\<close> starts as \<^verbatim>\<open>None\<close>, which an f-string prints as \<^verbatim>\<open>None\<close>.
\<close>

fun provider_loop ::
    "env \<Rightarrow> request_ctx \<Rightarrow> gen_params \<Rightarrow> string list \<Rightarrow> string option
     \<Rightarrow> (http_exception + txt2img_response) \<times> generate_call list" where
  "provider_loop E X params [] last_error =
     (Inl (HTTPException 500
        (''All providers failed. Last error: '' @ (case last_error of None \<Rightarrow> ''None'' | Some s \<Rightarrow> s))), [])"
| "provider_loop E X params (provider # providers) last_error =
     (case attempt E X params provider of
        (Inr response, calls) \<Rightarrow> (Inr response, calls)
      | (Inl e, calls) \<Rightarrow>
          (case provider_loop E X params providers (Some (e_str E e)) of
             (r, calls') \<Rightarrow> (r, calls @ calls')))"

text \<open>
  The random generator: \<open>entropy\<close> is the sequence of raw values it will produce, \<open>draws\<close>
  the number of values taken so far. \<^verbatim>\<open>random.randint(lo, hi)\<close> takes one value and
  maps it into the closed range.
\<close>

record rng =
  entropy :: "nat \<Rightarrow> nat"
  draws :: nat

definition randint :: "int \<Rightarrow> int \<Rightarrow> rng \<Rightarrow> int \<times> rng" where
  "randint lo hi g =
     (lo + int (entropy g (draws g) mod nat (hi - lo + 1)), g\<lparr>draws := draws g + 1\<rparr>)"

text \<open>
  \<^verbatim>\<open>seed_used = request.seed if request.seed != -1 else random.randint(0, 2**31 - 1)\<close>
\<close>

definition choose_seed :: "txt2img_request \<Rightarrow> rng \<Rightarrow> int \<times> rng" where
  "choose_seed request g =
     (if rq_seed request \<noteq> - 1 then (rq_seed request, g) else randint 0 (2 ^ 31 - 1) g)"

definition make_params :: "txt2img_request \<Rightarrow> int \<Rightarrow> gen_params" where
  "make_params request seed_used =
     \<lparr>p_steps = rq_steps request, p_cfg_scale = rq_cfg_scale request,
      p_width = rq_width request, p_height = rq_height request, p_seed = seed_used\<rparr>"

definition txt2img_generation ::
    "env \<Rightarrow> request_ctx \<Rightarrow> rng
     \<Rightarrow> ((http_exception + txt2img_response) \<times> generate_call list) \<times> rng" where
  "txt2img_generation E X g =
     (case choose_seed (x_request X) g of
        (seed_used, g') \<Rightarrow>
          (provider_loop E X (make_params (x_request X) seed_used) provider_list None, g'))"

subsection \<open>The Runware LoRA resolution cache\<close>

record mapping_entry =
  runware_id :: string
  uploaded_at :: string

type_synonym lora_mapping = "(string \<times> mapping_entry) list"

text \<open>
  The world \<^verbatim>\<open>resolve_runware_loras\<close> acts on: the mapping file (\<open>None\<close> when it does
  not exist), the download URLs of the upload requests made so far, and the mappings
  handed to \<^verbatim>\<open>write_text\<close> so far.
\<close>

record world =
  mapping_file :: "lora_mapping option"
  upload_log :: "string list"
  write_log :: "lora_mapping list"

text \<open>
  The outcome of the upload request: a timeout, another exception of the request, or a
  response with its status and the list under \<^verbatim>\<open>data\<close> of its JSON body.
\<close>

datatype post_outcome =
    PostTimeout
  | PostFailure string
  | PostResponse int "(string \<times> json) list list"

text \<open>
  The surroundings of the resolution: the outcome of the \<open>n\<close>-th upload request, whether
  the \<open>n\<close>-th write of the mapping file succeeds, the clock, and SHA-256 as a hex string.
\<close>

record runware_env =
  rw_post :: "nat \<Rightarrow> string \<Rightarrow> post_outcome"
  rw_disk_ok :: "nat \<Rightarrow> bool"
  rw_utcnow :: "nat \<Rightarrow> string"
  rw_sha256_hex :: "string \<Rightarrow> string"

definition load_runware_lora_mapping :: "world \<Rightarrow> lora_mapping" where
  "load_runware_lora_mapping w = (case mapping_file w of None \<Rightarrow> [] | Some m \<Rightarrow> m)"

definition save_runware_lora_mapping :: "runware_env \<Rightarrow> lora_mapping \<Rightarrow> world \<Rightarrow> (error + unit) \<times> world" where
  "save_runware_lora_mapping E mapping w =
     (let w' = w\<lparr>write_log := write_log w @ [mapping]\<rparr>
      in if rw_disk_ok E (length (write_log w))
         then (Inr (), w'\<lparr>mapping_file := Some mapping\<rparr>)
         else (Inl (ProviderFailure ''OSError''), w'))"

definition generate_air_id_from_url :: "runware_env \<Rightarrow> string \<Rightarrow> string \<times> string" where
  "generate_air_id_from_url E hf_url =
     (let clean_url = py_lower (py_strip hf_url);
          url_hash = take 12 (rw_sha256_hex E clean_url)
      in (''deathwalker:'' @ url_hash @ ''@1'', url_hash))"

definition upload_lora_to_runware :: "runware_env \<Rightarrow> string \<Rightarrow> world \<Rightarrow> (error + string) \<times> world" where
  "upload_lora_to_runware E hf_url w =
     (let air_id = fst (generate_air_id_from_url E hf_url);
          w' = w\<lparr>upload_log := upload_log w @ [hf_url]\<rparr>
      in case rw_post E (length (upload_log w)) hf_url of
           PostTimeout \<Rightarrow> (Inr air_id, w')
         | PostFailure msg \<Rightarrow> (Inl (ProviderFailure msg), w')
         | PostResponse status entries \<Rightarrow>
             (if status \<noteq> 200 then (Inl (UploadStatus status), w')
              else (case entries of
                      [] \<Rightarrow> (Inr air_id, w')
                    | first # _ \<Rightarrow>
                        (if ''error'' \<in> set (map fst first) then (Inl RunwareError, w')
                         else (Inr air_id, w')))))"

text \<open>
  A LoRA descriptor \<^verbatim>\<open>l\<close> and \<^verbatim>\<open>src = l.get("lora") or l.get("url") or l.get("id")\<close>;
  a source that is \<^verbatim>\<open>None\<close> is skipped as a non-string.
\<close>

record lora_descriptor =
  d_lora :: "string option"
  d_url :: "string option"
  d_id :: "string option"
  d_weight :: "rat option"

record resolved_lora =
  rl_lora :: string
  rl_weight :: rat

definition lora_src :: "lora_descriptor \<Rightarrow> string option" where
  "lora_src l =
     (if str_truthy (d_lora l) then d_lora l
      else if str_truthy (d_url l) then d_url l
      else d_id l)"

text \<open>\<^verbatim>\<open>weight = l.get("weight", 1.0)\<close>\<close>

definition weight_of :: "lora_descriptor \<Rightarrow> rat" where
  "weight_of l = (case d_weight l of None \<Rightarrow> 1 | Some x \<Rightarrow> x)"

definition provider_prefixed :: "string \<Rightarrow> bool" where
  "provider_prefixed s =
     (prefix ''runware:'' s \<or> prefix ''civitai:'' s \<or> prefix ''hfk:'' s \<or> prefix ''deathwalker:'' s)"

definition new_entry :: "runware_env \<Rightarrow> string \<Rightarrow> world \<Rightarrow> mapping_entry" where
  "new_entry E rid w = \<lparr>runware_id = rid, uploaded_at = rw_utcnow E (length (upload_log w))\<rparr>"

text \<open>
  The \<^verbatim>\<open>for l in loras\<close> loop with its variables \<^verbatim>\<open>mapping\<close>, \<^verbatim>\<open>updated\<close> and
  \<^verbatim>\<open>resolved\<close>; \<^verbatim>\<open>mapping[src_str] = ...\<close> replaces the value of a key that is
  present and appends a key that is not.
\<close>

fun resolve_loop ::
    "runware_env \<Rightarrow> lora_descriptor list \<Rightarrow> lora_mapping \<Rightarrow> bool \<Rightarrow> resolved_lora list \<Rightarrow> world
     \<Rightarrow> lora_mapping \<times> bool \<times> resolved_lora list \<times> world" where
  "resolve_loop E [] mapping updated resolved w = (mapping, updated, resolved, w)"
| "resolve_loop E (l # loras) mapping updated resolved w =
     (let weight = weight_of l
      in case lora_src l of
           None \<Rightarrow> resolve_loop E loras mapping updated resolved w
         | Some src \<Rightarrow>
            (let src_str = py_strip src
             in if provider_prefixed src_str
                then resolve_loop E loras mapping updated
                       (resolved @ [\<lparr>rl_lora = src_str, rl_weight = weight\<rparr>]) w
                else if CHR '':'' \<in> set src_str \<and> CHR ''@'' \<in> set src_str
                then resolve_loop E loras mapping updated
                       (resolved @ [\<lparr>rl_lora = src_str, rl_weight = weight\<rparr>]) w
                else if is_http_url src_str
                then (case map_of mapping src_str of
                        Some entry \<Rightarrow>
                          resolve_loop E loras mapping updated
                            (resolved @ [\<lparr>rl_lora = runware_id entry, rl_weight = weight\<rparr>]) w
                      | None \<Rightarrow>
                          (case upload_lora_to_runware E src_str w of
                             (Inr rid, w') \<Rightarrow>
                               resolve_loop E loras
                                 (AList.update src_str (new_entry E rid w') mapping) True
                                 (resolved @ [\<lparr>rl_lora = rid, rl_weight = weight\<rparr>]) w'
                           | (Inl e, w') \<Rightarrow> resolve_loop E loras mapping updated resolved w'))
                else (case upload_lora_to_runware E src_str w of
                        (Inr rid, w') \<Rightarrow>
                          resolve_loop E loras
                            (AList.update src_str (new_entry E rid w') mapping) True
                            (resolved @ [\<lparr>rl_lora = rid, rl_weight = weight\<rparr>]) w'
                      | (Inl e, w') \<Rightarrow> resolve_loop E loras mapping updated resolved w')))"

definition resolve_runware_loras ::
    "runware_env \<Rightarrow> lora_descriptor list \<Rightarrow> world \<Rightarrow> resolved_lora list \<times> world" where
  "resolve_runware_loras E loras w =
     (case resolve_loop E loras (load_runware_lora_mapping w) False [] w of
        (mapping, updated, resolved, w') \<Rightarrow>
          (if updated then (resolved, snd (save_runware_lora_mapping E mapping w'))
           else (resolved, w')))"


subsection \<open>Example surroundings\<close>

text \<open>
  A request context without LoRAs, and clients of which \<^verbatim>\<open>runware\<close> raises,
  \<^verbatim>\<open>hfzerogpu\<close> returns the start of an HTML page, \<^verbatim>\<open>wavespeed\<close> returns a PNG
  signature and the others raise.
\<close>

definition example_request :: "int \<Rightarrow> txt2img_request" where
  "example_request s =
     \<lparr>rq_prompt = ''a cat'', rq_negative_prompt = '''', rq_steps = 40, rq_cfg_scale = 7 / 2,
      rq_width = 1024, rq_height = 1024, rq_seed = s\<rparr>"

definition example_ctx :: "int \<Rightarrow> request_ctx" where
  "example_ctx s =
     \<lparr>x_request = example_request s, x_summarized_prompt = ''a cat'', x_matched_loras = [],
      x_full_prompt = ''a cat'', x_full_negative = ''blurry''\<rparr>"

definition example_clients :: "(string \<times> client) list" where
  "example_clients =
     [(''runware'', \<lambda>p n l q. Inl (ProviderFailure ''RUNWARE_API_KEY not configured'')),
      (''hfzerogpu'', \<lambda>p n l q. Inr [0x3C, 0x21, 0x44, 0x4F, 0x43]),
      (''wavespeed'', \<lambda>p n l q. Inr [0x89, 0x50, 0x4E, 0x47, 0x0D]),
      (''fal'', \<lambda>p n l q. Inl (ProviderFailure ''FAL_API_KEY not configured'')),
      (''together'', \<lambda>p n l q. Inl NoImageURL),
      (''pixeldojo'', \<lambda>p n l q. Inl (ProviderFailure ''PIXELDOJO_API_KEY not configured''))]"

definition example_env :: "(string \<times> client) list \<Rightarrow> env" where
  "example_env cl =
     \<lparr>e_config = \<lparr>MAXLORAS_FAL = 3, MAXLORAS_TOGETHER = 2, MAXLORAS_HF = 10,
                   ENABLE_SUMMARIZATION = True\<rparr>,
      e_clients = cl,
      e_str = (\<lambda>e. case e of ProviderFailure m \<Rightarrow> m | _ \<Rightarrow> ''error''),
      e_b64encode = (\<lambda>b. ''iVBORw0='' ),
      e_json_dumps = (\<lambda>i. ''{}'')\<rparr>"

definition example_rng :: rng where
  "example_rng = \<lparr>entropy = (\<lambda>n. 2 ^ 31 + 5), draws = 0\<rparr>"

text \<open>
  Example surroundings of the resolution: every upload request is answered with the given
  status and an empty \<^verbatim>\<open>data\<close> list, every write succeeds, the clock stands still.
\<close>

definition example_rw_env :: "int \<Rightarrow> runware_env" where
  "example_rw_env status =
     \<lparr>rw_post = (\<lambda>n u. PostResponse status []),
      rw_disk_ok = (\<lambda>n. True),
      rw_utcnow = (\<lambda>n. ''2025-01-01T00:00:00''),
      rw_sha256_hex = (\<lambda>s. ''9f86d081884c7d659a2feaa0c55ad015'')\<rparr>"

definition example_world :: "lora_mapping option \<Rightarrow> world" where
  "example_world f = \<lparr>mapping_file = f, upload_log = [], write_log = []\<rparr>"

definition example_descriptor :: "string \<Rightarrow> lora_descriptor" where
  "example_descriptor u = \<lparr>d_lora = Some u, d_url = None, d_id = None, d_weight = Some (4 / 5)\<rparr>"

section \<open>Properties\<close>

subsection \<open>The image validator\<close>

lemma take_eq_prefix:
  "length xs \<le> length data \<Longrightarrow> (take (length xs) data = xs) = prefix xs data"
  by (metis append_eq_conv_conj prefix_def take_is_prefix)

lemma take3_prefix: "4 \<le> length data \<Longrightarrow> (take 3 data = [a, b, c]) = prefix [a, b, c] data"
  using take_eq_prefix [of "[a, b, c]" data] by (simp add: eval_nat_numeral)

lemma take4_prefix: "4 \<le> length data \<Longrightarrow> (take 4 data = [a, b, c, d]) = prefix [a, b, c, d] data"
  using take_eq_prefix [of "[a, b, c, d]" data] by (simp add: eval_nat_numeral)

text \<open>
  Claim C1, as the code has it. The validator accepts exactly the byte strings of at
  least four bytes that begin with \<^verbatim>\<open>FFD8FF\<close>, \<^verbatim>\<open>89504E47\<close>, \<^verbatim>\<open>52494646\<close> (the
  four bytes \<^verbatim>\<open>RIFF\<close>, whatever follows them) or \<^verbatim>\<open>47494638\<close>. A byte string
  shorter than four bytes is rejected with the "too small" error, every other byte string
  with the "not a valid image" error that carries its first sixteen bytes.
\<close>

theorem validate_accepts_iff:
  "(validate_image_bytes data p = Inr ()) =
     (4 \<le> length data \<and>
      (prefix [0xFF, 0xD8, 0xFF] data \<or> prefix [0x89, 0x50, 0x4E, 0x47] data
       \<or> prefix [0x52, 0x49, 0x46, 0x46] data \<or> prefix [0x47, 0x49, 0x46, 0x38] data))
   \<and> (validate_image_bytes data p = Inl (ImageTooSmall p (length data))) = (length data < 4)
   \<and> (validate_image_bytes data p = Inl (NotValidImage p (take 16 data))) =
     (4 \<le> length data \<and>
      \<not> (prefix [0xFF, 0xD8, 0xFF] data \<or> prefix [0x89, 0x50, 0x4E, 0x47] data
       \<or> prefix [0x52, 0x49, 0x46, 0x46] data \<or> prefix [0x47, 0x49, 0x46, 0x38] data))"
proof (cases "length data < 4")
  case True
  then show ?thesis by (simp add: validate_image_bytes_def)
next
  case False
  then have "4 \<le> length data" by simp
  then show ?thesis
    by (simp add: validate_image_bytes_def take3_prefix take4_prefix)
qed

text \<open>A PNG signature is accepted; the start of an HTML document is rejected.\<close>

theorem validate_accepts_iff_witness:
  "validate_image_bytes [0x89, 0x50, 0x4E, 0x47, 0x0D] ''fal'' = Inr ()
   \<and> validate_image_bytes [0x3C, 0x21, 0x44, 0x4F, 0x43] ''fal''
       = Inl (NotValidImage ''fal'' [0x3C, 0x21, 0x44, 0x4F, 0x43])"
  using validate_accepts_iff [of "[0x89, 0x50, 0x4E, 0x47, 0x0D]" "''fal''"]
    validate_accepts_iff [of "[0x3C, 0x21, 0x44, 0x4F, 0x43]" "''fal''"]
  by simp

text \<open>
  Claim C1 as stated fails in both directions. The twelve bytes \<^verbatim>\<open>RIFF\<close>, four zero
  bytes, \<^verbatim>\<open>WAVE\<close> (the header of an audio file) do not begin with the WEBP magic number
  \<^verbatim>\<open>RIFF....WEBP\<close>, and are accepted. The three bytes \<^verbatim>\<open>FFD8FF\<close> begin with the
  JPEG magic number, and are rejected, with the "too small" error.
\<close>

theorem validate_magic_counterexample:
  "validate_image_bytes [0x52, 0x49, 0x46, 0x46, 0, 0, 0, 0, 0x57, 0x41, 0x56, 0x45] ''fal'' = Inr ()
   \<and> \<not> spec_magic_prefix [0x52, 0x49, 0x46, 0x46, 0, 0, 0, 0, 0x57, 0x41, 0x56, 0x45]
   \<and> spec_magic_prefix [0xFF, 0xD8, 0xFF]
   \<and> validate_image_bytes [0xFF, 0xD8, 0xFF] ''fal'' = Inl (ImageTooSmall ''fal'' 3)"
  by (simp add: validate_image_bytes_def spec_magic_prefix_def)

lemma validate_short:
  "length data < 4 \<Longrightarrow> validate_image_bytes data p = Inl (ImageTooSmall p (length data))"
  by (simp add: validate_image_bytes_def)

subsection \<open>Role caps\<close>

lemma count_of_upd:
  "count_of (counts(r \<mapsto> n)) r' = (if r' = r then n else count_of counts r')"
  by (simp add: count_of_def)

lemma role_caps_loop_filter:
  "filter (\<lambda>x. role_of x = r) (role_caps_loop caps xs counts) =
     take (nat (cap_of caps r) - count_of counts r) (filter (\<lambda>x. role_of x = r) xs)"
proof (induction xs arbitrary: counts)
  case Nil
  then show ?case by simp
next
  case (Cons x xs)
  show ?case
  proof (cases "cap_of caps (role_of x) \<le> int (count_of counts (role_of x))")
    case True
    define C where "C = counts(role_of x \<mapsto> count_of counts (role_of x))"
    have s: "role_caps_loop caps (x # xs) counts = role_caps_loop caps xs C"
      using True by (simp add: Let_def C_def)
    have c: "count_of C r = count_of counts r"
      by (simp add: C_def count_of_upd)
    have z: "role_of x = r \<Longrightarrow> nat (cap_of caps r) - count_of counts r = 0"
      using True by auto
    show ?thesis
      unfolding s Cons.IH [of C] c using z by auto
  next
    case False
    define C where "C = counts(role_of x \<mapsto> count_of counts (role_of x) + 1)"
    have s: "role_caps_loop caps (x # xs) counts = x # role_caps_loop caps xs C"
      using False by (simp add: Let_def C_def)
    have c: "count_of C r = (if r = role_of x then count_of counts r + 1 else count_of counts r)"
      by (simp add: C_def count_of_upd)
    show ?thesis
    proof (cases "role_of x = r")
      case True
      with False obtain m where m: "nat (cap_of caps r) - count_of counts r = Suc m"
        by (metis Suc_pred linorder_not_le zero_less_diff zless_nat_eq_int_zless)
      then have m': "nat (cap_of caps r) - (count_of counts r + 1) = m" by simp
      have ih: "filter (\<lambda>x. role_of x = r) (role_caps_loop caps xs C) =
             take (nat (cap_of caps r) - count_of C r) (filter (\<lambda>x. role_of x = r) xs)"
        by (rule Cons.IH)
      show ?thesis
        unfolding s using ih True m m' by (simp add: c)
    next
      case neq: False
      have ih: "filter (\<lambda>x. role_of x = r) (role_caps_loop caps xs C) =
             take (nat (cap_of caps r) - count_of C r) (filter (\<lambda>x. role_of x = r) xs)"
        by (rule Cons.IH)
      show ?thesis
        unfolding s using ih neq by (auto simp: c)
    qed
  qed
qed

lemma role_caps_loop_subseq: "subseq (role_caps_loop caps xs counts) xs"
  by (induction xs arbitrary: counts) (auto simp: Let_def)

lemma role_caps_loop_snoc:
  "role_caps_loop caps (xs @ [x]) counts =
     role_caps_loop caps xs counts @
       (if int (count_of counts (role_of x)
                + length (filter (\<lambda>y. role_of y = role_of x) (role_caps_loop caps xs counts)))
            < cap_of caps (role_of x)
        then [x] else [])"
proof (induction xs arbitrary: counts)
  case Nil
  then show ?case by (simp add: Let_def)
next
  case (Cons y ys)
  show ?case
  proof (cases "cap_of caps (role_of y) \<le> int (count_of counts (role_of y))")
    case True
    define C where "C = counts(role_of y \<mapsto> count_of counts (role_of y))"
    have s1: "role_caps_loop caps ((y # ys) @ [x]) counts = role_caps_loop caps (ys @ [x]) C"
      using True by (simp add: Let_def C_def)
    have s2: "role_caps_loop caps (y # ys) counts = role_caps_loop caps ys C"
      using True by (simp add: Let_def C_def)
    have c: "count_of C (role_of x) = count_of counts (role_of x)"
      by (simp add: C_def count_of_upd)
    show ?thesis
      unfolding s1 s2 Cons.IH [of C] c by (rule refl)
  next
    case False
    define C where "C = counts(role_of y \<mapsto> count_of counts (role_of y) + 1)"
    have s1: "role_caps_loop caps ((y # ys) @ [x]) counts = y # role_caps_loop caps (ys @ [x]) C"
      using False by (simp add: Let_def C_def)
    have s2: "role_caps_loop caps (y # ys) counts = y # role_caps_loop caps ys C"
      using False by (simp add: Let_def C_def)
    have c: "count_of C (role_of x) =
               (if role_of x = role_of y then count_of counts (role_of x) + 1
                else count_of counts (role_of x))"
      by (simp add: C_def count_of_upd)
    show ?thesis
      unfolding s1 s2 Cons.IH [of C] c by simp
  qed
qed

lemma count_of_empty: "count_of Map.empty r = 0"
  by (simp add: count_of_def)

lemma sorted_take_drop_le:
  assumes "sorted (map f ys)" "x \<in> set (take n ys)" "y \<in> set (drop n ys)"
  shows "f x \<le> f y"
proof -
  have "sorted (map f (take n ys) @ map f (drop n ys))"
    using assms(1) by (metis append_take_drop_id map_append)
  then show ?thesis using assms(2,3) by (auto simp: sorted_append)
qed

text \<open>
  Claim C3, as the code has it. With a non-empty cap table, \<open>apply_role_caps\<close> keeps of
  every role \<open>r\<close> exactly the first \<open>cap_of caps r\<close> entries of that role, in their
  order, so never more than the cap; the result is a subsequence of the input; walking one
  entry further keeps that entry exactly when the number of kept entries of its role is
  below the role's cap; on a rank-sorted input no kept entry of a role has a higher rank
  than a dropped entry of that role; and a role that the table does not list has the cap
  of \<^verbatim>\<open>misc\<close>, or 999 when the table does not list \<^verbatim>\<open>misc\<close> either.
\<close>

theorem apply_role_caps_keeps_first:
  assumes "caps \<noteq> []"
  shows "filter (\<lambda>x. role_of x = r) (apply_role_caps caps xs)
           = take (nat (cap_of caps r)) (filter (\<lambda>x. role_of x = r) xs)
       \<and> int (length (filter (\<lambda>x. role_of x = r) (apply_role_caps caps xs))) \<le> max 0 (cap_of caps r)
       \<and> subseq (apply_role_caps caps xs) xs
       \<and> apply_role_caps caps (xs @ [x]) =
           apply_role_caps caps xs @
             (if int (length (filter (\<lambda>y. role_of y = role_of x) (apply_role_caps caps xs)))
                   < cap_of caps (role_of x)
              then [x] else [])
       \<and> (sorted (map rank_of xs) \<longrightarrow>
            (\<forall>k \<in> set (filter (\<lambda>x. role_of x = r) (apply_role_caps caps xs)).
             \<forall>d \<in> set (drop (nat (cap_of caps r)) (filter (\<lambda>x. role_of x = r) xs)).
               rank_of k \<le> rank_of d))
       \<and> (map_of caps r = None \<longrightarrow>
            cap_of caps r = (case map_of caps ''misc'' of Some c \<Rightarrow> c | None \<Rightarrow> 999))"
proof -
  have eq: "filter (\<lambda>x. role_of x = r) (apply_role_caps caps xs)
           = take (nat (cap_of caps r)) (filter (\<lambda>x. role_of x = r) xs)"
    using assms by (simp add: apply_role_caps_def role_caps_loop_filter count_of_empty)
  have len: "int (length (filter (\<lambda>x. role_of x = r) (apply_role_caps caps xs))) \<le> max 0 (cap_of caps r)"
    unfolding eq by simp
  have sub: "subseq (apply_role_caps caps xs) xs"
    using assms by (simp add: apply_role_caps_def role_caps_loop_subseq)
  have snoc: "apply_role_caps caps (xs @ [x]) =
           apply_role_caps caps xs @
             (if int (length (filter (\<lambda>y. role_of y = role_of x) (apply_role_caps caps xs)))
                   < cap_of caps (role_of x)
              then [x] else [])"
    using assms by (simp add: apply_role_caps_def role_caps_loop_snoc count_of_empty)
  have srt: "sorted (map rank_of xs) \<longrightarrow>
            (\<forall>k \<in> set (filter (\<lambda>x. role_of x = r) (apply_role_caps caps xs)).
             \<forall>d \<in> set (drop (nat (cap_of caps r)) (filter (\<lambda>x. role_of x = r) xs)).
               rank_of k \<le> rank_of d)"
  proof (intro impI ballI)
    fix k d
    assume s: "sorted (map rank_of xs)"
      and k: "k \<in> set (filter (\<lambda>x. role_of x = r) (apply_role_caps caps xs))"
      and d: "d \<in> set (drop (nat (cap_of caps r)) (filter (\<lambda>x. role_of x = r) xs))"
    have "sorted (map rank_of (filter (\<lambda>x. role_of x = r) xs))"
      using s by (simp add: sorted_filter)
    then show "rank_of k \<le> rank_of d"
      using k d unfolding eq by (rule sorted_take_drop_le)
  qed
  have dflt: "map_of caps r = None \<longrightarrow>
            cap_of caps r = (case map_of caps ''misc'' of Some c \<Rightarrow> c | None \<Rightarrow> 999)"
    by (simp add: cap_of_def)
  from eq len sub snoc srt dflt show ?thesis by blast
qed

text \<open>
  With the shipped table: of three \<^verbatim>\<open>expression\<close> entries (cap 2) the first two are
  kept, and the unlisted role \<^verbatim>\<open>style\<close> has cap 1.
\<close>

theorem apply_role_caps_keeps_first_witness:
  "ROLE_CAPS \<noteq> []
   \<and> sorted (map rank_of [mk_lora ''a'' ''https://h/a'' ''expression'' 1,
        mk_lora ''b'' ''https://h/b'' ''expression'' 2, mk_lora ''c'' ''https://h/c'' ''expression'' 3])
   \<and> map_of ROLE_CAPS ''style'' = None
   \<and> filter (\<lambda>x. role_of x = ''expression'')
       (apply_role_caps ROLE_CAPS [mk_lora ''a'' ''https://h/a'' ''expression'' 1,
        mk_lora ''b'' ''https://h/b'' ''expression'' 2, mk_lora ''c'' ''https://h/c'' ''expression'' 3])
     = [mk_lora ''a'' ''https://h/a'' ''expression'' 1, mk_lora ''b'' ''https://h/b'' ''expression'' 2]
   \<and> cap_of ROLE_CAPS ''style'' = 1"
  using apply_role_caps_keeps_first [of ROLE_CAPS "''expression''"
      "[mk_lora ''a'' ''https://h/a'' ''expression'' 1,
        mk_lora ''b'' ''https://h/b'' ''expression'' 2, mk_lora ''c'' ''https://h/c'' ''expression'' 3]"
      "mk_lora ''c'' ''https://h/c'' ''expression'' 3"]
    apply_role_caps_keeps_first [of ROLE_CAPS "''style''" "[]" "mk_lora ''c'' ''https://h/c'' ''expression'' 3"]
  by (simp add: ROLE_CAPS_def cap_of_def role_of_def mk_lora_def rank_of_def)

text \<open>
  Claim C3 as stated says that a role without a configured cap is effectively uncapped.
  With the shipped table the role \<^verbatim>\<open>style\<close> is not listed, its cap is the cap 1 of
  \<^verbatim>\<open>misc\<close>, and of two \<^verbatim>\<open>style\<close> entries only the first is kept.
\<close>

theorem role_caps_unlisted_counterexample:
  "map_of ROLE_CAPS ''style'' = None
   \<and> cap_of ROLE_CAPS ''style'' = 1
   \<and> apply_role_caps ROLE_CAPS
       [mk_lora ''a'' ''https://h/a'' ''style'' 1, mk_lora ''b'' ''https://h/b'' ''style'' 2]
     = [mk_lora ''a'' ''https://h/a'' ''style'' 1]"
  by (simp add: ROLE_CAPS_def cap_of_def apply_role_caps_def Let_def role_of_def mk_lora_def count_of_def)

subsection \<open>Provider-specific pruning\<close>

lemma mem_dropWhile: "\<not> P c \<Longrightarrow> (c \<in> set (dropWhile P s)) = (c \<in> set s)"
  by (induction s) auto

lemma mem_py_strip: "\<not> py_isspace c \<Longrightarrow> (c \<in> set (py_strip s)) = (c \<in> set s)"
  by (simp add: py_strip_def mem_dropWhile)

lemma colon_at_not_space: "\<not> py_isspace CHR '':''" "\<not> py_isspace CHR ''@''"
  by (simp_all add: py_isspace_def)

lemma pruning_runware: "provider_based_lora_url_pruning xs ''runware'' = xs"
  by (induction xs) auto

lemma pruning_filter:
  "provider \<noteq> ''runware'' \<Longrightarrow>
   provider_based_lora_url_pruning xs provider =
     filter (\<lambda>l. \<not> (CHR '':'' \<in> set (src_of l) \<and> CHR ''@'' \<in> set (src_of l))) xs"
  by (induction xs) auto

lemma http_has_colon: "is_http_url s \<Longrightarrow> CHR '':'' \<in> set s"
  by (auto simp: is_http_url_def prefix_def)

lemma src_of_mk: "src_of (mk_lora i u c r) = py_strip u"
  by (simp add: src_of_def mk_lora_def)

text \<open>
  Claim C4, as the code has it. For the provider \<^verbatim>\<open>runware\<close> the list is returned as
  it is. For every other provider the entries dropped are exactly those whose stripped
  source contains both a colon and an at-sign, wherever they stand; the entries that
  remain keep their order and are unchanged. An entry whose source is an HTTP(S) URL
  survives exactly when the provider is \<^verbatim>\<open>runware\<close> or the URL contains no at-sign.
  Stripping does not change whether the source contains the two characters.
\<close>

theorem pruning_drops_colon_at:
  "provider_based_lora_url_pruning xs provider =
     (if provider = ''runware'' then xs
      else filter (\<lambda>l. \<not> (CHR '':'' \<in> set (src_of l) \<and> CHR ''@'' \<in> set (src_of l))) xs)
   \<and> subseq (provider_based_lora_url_pruning xs provider) xs
   \<and> (l \<in> set xs \<and> is_http_url (src_of l) \<longrightarrow>
        (l \<in> set (provider_based_lora_url_pruning xs provider))
          = (provider = ''runware'' \<or> CHR ''@'' \<notin> set (src_of l)))
   \<and> (ld_url (m_data l) = Some u \<longrightarrow>
        (CHR '':'' \<in> set (src_of l) \<and> CHR ''@'' \<in> set (src_of l))
          = (CHR '':'' \<in> set u \<and> CHR ''@'' \<in> set u))"
proof -
  have eq: "provider_based_lora_url_pruning xs provider =
     (if provider = ''runware'' then xs
      else filter (\<lambda>l. \<not> (CHR '':'' \<in> set (src_of l) \<and> CHR ''@'' \<in> set (src_of l))) xs)"
    by (simp add: pruning_runware pruning_filter)
  have sub: "subseq (provider_based_lora_url_pruning xs provider) xs"
    unfolding eq by simp
  have url: "l \<in> set xs \<and> is_http_url (src_of l) \<longrightarrow>
        (l \<in> set (provider_based_lora_url_pruning xs provider))
          = (provider = ''runware'' \<or> CHR ''@'' \<notin> set (src_of l))"
    unfolding eq using http_has_colon [of "src_of l"] by auto
  have raw: "ld_url (m_data l) = Some u \<longrightarrow>
        (CHR '':'' \<in> set (src_of l) \<and> CHR ''@'' \<in> set (src_of l))
          = (CHR '':'' \<in> set u \<and> CHR ''@'' \<in> set u)"
    by (simp add: src_of_def mem_py_strip colon_at_not_space)
  from eq sub url raw show ?thesis by blast
qed

text \<open>
  For the provider \<^verbatim>\<open>fal\<close>, a plain HTTPS URL is kept and the inline spec
  \<^verbatim>\<open>rundiffusion:130@100\<close> is dropped.
\<close>

theorem pruning_drops_colon_at_witness:
  "mk_lora ''a'' ''https://hf.co/u/a.safetensors'' ''style'' 1
      \<in> set [mk_lora ''a'' ''https://hf.co/u/a.safetensors'' ''style'' 1,
              mk_lora ''b'' ''rundiffusion:130@100'' ''style'' 2]
   \<and> is_http_url (src_of (mk_lora ''a'' ''https://hf.co/u/a.safetensors'' ''style'' 1))
   \<and> ld_url (m_data (mk_lora ''a'' ''https://hf.co/u/a.safetensors'' ''style'' 1))
        = Some ''https://hf.co/u/a.safetensors''
   \<and> provider_based_lora_url_pruning
        [mk_lora ''a'' ''https://hf.co/u/a.safetensors'' ''style'' 1,
         mk_lora ''b'' ''rundiffusion:130@100'' ''style'' 2] ''fal''
      = [mk_lora ''a'' ''https://hf.co/u/a.safetensors'' ''style'' 1]"
  using pruning_drops_colon_at [of
      "[mk_lora ''a'' ''https://hf.co/u/a.safetensors'' ''style'' 1,
        mk_lora ''b'' ''rundiffusion:130@100'' ''style'' 2]" "''fal''"
      "mk_lora ''a'' ''https://hf.co/u/a.safetensors'' ''style'' 1" "''https://hf.co/u/a.safetensors''"]
  by (simp add: src_of_mk py_strip_def py_isspace_def is_http_url_def) (simp add: mk_lora_def)

text \<open>
  Claim C4 as stated fails: an HTTPS URL with an at-sign in its path is dropped for the
  provider \<^verbatim>\<open>fal\<close>, and so is the source \<^verbatim>\<open>v2@me:lora\<close>, which has no at-sign
  after its colon and so is not of the shape \<^verbatim>\<open><token>:<token>@<token>\<close>.
\<close>

theorem pruning_http_url_counterexample:
  "is_http_url (src_of (mk_lora ''a'' ''https://hf.co/u/r@main/a.safetensors'' ''style'' 1))
   \<and> provider_based_lora_url_pruning
        [mk_lora ''a'' ''https://hf.co/u/r@main/a.safetensors'' ''style'' 1] ''fal'' = []
   \<and> \<not> spec_inline_shape (src_of (mk_lora ''b'' ''v2@me:lora'' ''style'' 1))
   \<and> provider_based_lora_url_pruning [mk_lora ''b'' ''v2@me:lora'' ''style'' 1] ''fal'' = []"
  by (simp add: src_of_mk py_strip_def py_isspace_def is_http_url_def spec_inline_shape_def upt_rec)

subsection \<open>The payload extractor\<close>

lemma spec_keys_nil: "spec_keys keys [] = None"
  by (induction keys) auto

lemma extract_keys_nil: "extract_keys direct keys [] = None"
  by (induction keys) auto

lemma spec_falsy:
  "\<not> truthy v \<Longrightarrow> v \<noteq> JStr [] \<Longrightarrow> v \<noteq> JBytes [] \<Longrightarrow> spec_extract v = None"
  by (cases v) (auto simp: spec_keys_nil)

lemma extract_agrees:
  "no_empty_direct j \<Longrightarrow> extract_image_candidate j = spec_extract j"
  "no_empty_direct_items items \<Longrightarrow> extract_items items = spec_items items"
  "no_empty_direct_entries d \<Longrightarrow> (direct \<Longrightarrow> set keys \<subseteq> set direct_keys)
     \<Longrightarrow> extract_keys direct keys d = spec_keys keys d"
  "no_empty_direct_entries d \<Longrightarrow> (direct \<Longrightarrow> key \<in> set direct_keys)
     \<Longrightarrow> extract_key direct key d = spec_key key d"
  "no_empty_direct_entries d \<Longrightarrow> extract_values d = spec_values d"
proof (induction j and items and direct keys d and direct key d and d
    rule: extract_image_candidate_extract_items_extract_keys_extract_key_extract_values.induct)
  case (5 d)
  then show ?case by (simp split: option.splits)
next
  case (11 direct key keys d)
  then show ?case by (auto split: option.splits)
next
  case (13 direct key k v kvs)
  then show ?case
    by (auto simp: spec_falsy)
qed (auto split: option.splits)

text \<open>
  Claim C6, as the code has it. On every payload in which no object holds an empty string
  or empty bytes under a direct key, the extractor returns what the declared search
  priority returns: direct keys in their order, then container keys in their order, then
  every value in insertion order, the first search that yields a candidate winning; for
  an array the first element that yields a candidate. A string or bytes value is returned
  as itself, and an empty object yields no candidate. A direct key whose value is falsy
  (null, false, zero, or an empty string, bytes, array or object) is passed over in the
  direct-key phase.
\<close>

theorem extract_follows_priority:
  "(no_empty_direct j \<longrightarrow> extract_image_candidate j = spec_extract j)
   \<and> extract_image_candidate (JStr s) = Some (CStr s)
   \<and> extract_image_candidate (JBytes b) = Some (CBytes b)
   \<and> extract_image_candidate (JDict []) = None
   \<and> (\<not> truthy v \<longrightarrow> extract_key True k ((k, v) # kvs) = None)"
  by (simp add: extract_agrees(1) extract_keys_nil)

text \<open>
  A response that holds its image under \<^verbatim>\<open>data.outputs[0]\<close>, and an empty \<^verbatim>\<open>url\<close>
  that the direct-key phase passes over.
\<close>

theorem extract_follows_priority_witness:
  "no_empty_direct (JDict [(''status'', JStr ''''), (''data'', JDict [(''outputs'', JList [JStr ''http://x/a.png''])])])
   \<and> extract_image_candidate
        (JDict [(''status'', JStr ''''), (''data'', JDict [(''outputs'', JList [JStr ''http://x/a.png''])])])
      = Some (CStr ''http://x/a.png'')
   \<and> \<not> truthy (JStr '''')
   \<and> extract_key True ''url'' [(''url'', JStr ''''), (''id'', JStr ''7'')] = None"
  using extract_follows_priority [of
      "JDict [(''status'', JStr ''''), (''data'', JDict [(''outputs'', JList [JStr ''http://x/a.png''])])]"
      "''''" "[]" "JStr ''''" "''url''" "[(''id'', JStr ''7'')]"]
  by (simp add: direct_keys_def container_keys_def)

text \<open>
  Claim C6 as stated fails where a direct key holds an empty string. In the object
  \<^verbatim>\<open>{"image": "", "url": "http://x"}\<close> the key \<^verbatim>\<open>image\<close> comes before \<^verbatim>\<open>url\<close> in the
  declared order and its value is a string, which the claim returns as itself; the code
  skips it as falsy and returns the value of \<^verbatim>\<open>url\<close>.
\<close>

theorem extract_empty_direct_counterexample:
  "extract_image_candidate (JDict [(''image'', JStr ''''), (''url'', JStr ''http://x'')])
     = Some (CStr ''http://x'')
   \<and> spec_extract (JDict [(''image'', JStr ''''), (''url'', JStr ''http://x'')]) = Some (CStr '''')"
  by (simp add: direct_keys_def container_keys_def)

subsection \<open>Downloads that answer with an HTTP error\<close>

lemma get_checked_error:
  "get u = Inr resp \<Longrightarrow> \<not> (200 \<le> status_code resp \<and> status_code resp \<le> 299)
   \<Longrightarrow> get_checked get u = Inl (HTTPStatusError (status_code resp))"
  by (auto simp: get_checked_def raise_for_status_def)

text \<open>
  Claim C5. When the GET of a URL answers with a status outside 200 to 299, resolving a
  payload whose extracted candidate is that HTTP(S) URL fails with the HTTP status error,
  and so does the Together client when the SDK response carries that URL. The result is
  the same whatever the body of the response and whatever the base64 decoders would
  return: the body is not decoded and is not returned as image bytes.
\<close>

theorem http_error_fails_hard:
  assumes "get u = Inr resp"
    and "\<not> (200 \<le> status_code resp \<and> status_code resp \<le> 299)"
  shows "(extract_image_candidate payload = Some (CStr u) \<and> is_http_url u \<longrightarrow>
           resolve_image_bytes_from_payload get b64 payload p
             = Inl (HTTPStatusError (status_code resp)))
       \<and> (u \<noteq> [] \<longrightarrow>
           together_image_bytes get b64 b64l (SdkResponse (\<lparr>ic_url = Some u, ic_b64_json = j\<rparr> # rest))
             = Inl (HTTPStatusError (status_code resp)))"
  using get_checked_error [of get u resp] assms
  by (simp add: resolve_image_bytes_from_payload_def together_image_bytes_def)

text \<open>
  A CDN that answers 403 with an HTML body, and base64 decoders that would accept
  anything: both paths fail with the status error.
\<close>

theorem http_error_fails_hard_witness:
  "(\<lambda>u. Inr \<lparr>status_code = 403, content = [0x3C, 0x21, 0x44, 0x4F]\<rparr> :: error + http_response) ''http://cdn/expired.jpg''
      = Inr \<lparr>status_code = 403, content = [0x3C, 0x21, 0x44, 0x4F]\<rparr>
   \<and> \<not> (200 \<le> status_code \<lparr>status_code = 403, content = [0x3C, 0x21, 0x44, 0x4F]\<rparr>
        \<and> status_code \<lparr>status_code = 403, content = [0x3C, 0x21, 0x44, 0x4F]\<rparr> \<le> 299)
   \<and> extract_image_candidate (JDict [(''data'', JList [JDict [(''url'', JStr ''http://cdn/expired.jpg'')]])])
        = Some (CStr ''http://cdn/expired.jpg'')
   \<and> is_http_url ''http://cdn/expired.jpg''
   \<and> resolve_image_bytes_from_payload
        (\<lambda>u. Inr \<lparr>status_code = 403, content = [0x3C, 0x21, 0x44, 0x4F]\<rparr>) (\<lambda>s. Some [0xFF, 0xD8, 0xFF, 0xE0])
        (JDict [(''data'', JList [JDict [(''url'', JStr ''http://cdn/expired.jpg'')]])]) ''Together''
      = Inl (HTTPStatusError 403)
   \<and> together_image_bytes
        (\<lambda>u. Inr \<lparr>status_code = 403, content = [0x3C, 0x21, 0x44, 0x4F]\<rparr>) (\<lambda>s. Some [0xFF, 0xD8, 0xFF, 0xE0])
        (\<lambda>s. Some [0xFF, 0xD8, 0xFF, 0xE0])
        (SdkResponse [\<lparr>ic_url = Some ''http://cdn/expired.jpg'', ic_b64_json = None\<rparr>])
      = Inl (HTTPStatusError 403)"
  using http_error_fails_hard [of
      "\<lambda>u. Inr \<lparr>status_code = 403, content = [0x3C, 0x21, 0x44, 0x4F]\<rparr>"
      "''http://cdn/expired.jpg''" "\<lparr>status_code = 403, content = [0x3C, 0x21, 0x44, 0x4F]\<rparr>"
      "JDict [(''data'', JList [JDict [(''url'', JStr ''http://cdn/expired.jpg'')]])]"
      "\<lambda>s. Some [0xFF, 0xD8, 0xFF, 0xE0]" "''Together''" "\<lambda>s. Some [0xFF, 0xD8, 0xFF, 0xE0]" None "[]"]
  by (simp add: direct_keys_def container_keys_def is_http_url_def)

subsection \<open>The fallback loop\<close>

lemma attempt_success:
  assumes "attempt E X params provider = (Inr response, calls)"
  shows "\<exists>client lora_list bs.
      build_lora_list (provider_based_lora_url_pruning (x_matched_loras X) provider)
        (get_max_loras (e_config E) provider) = Inr lora_list
    \<and> map_of (e_clients E) provider = Some client
    \<and> client (x_full_prompt X) (x_full_negative X) lora_list params = Inr bs
    \<and> validate_image_bytes bs provider = Inr ()
    \<and> calls = [\<lparr>c_provider = provider, c_prompt = x_full_prompt X,
                 c_negative_prompt = x_full_negative X, c_loras = lora_list, c_params = params\<rparr>]
    \<and> images response = [e_b64encode E bs]
    \<and> i_provider (parameters response) = provider
    \<and> i_loras_used (parameters response) = length lora_list
    \<and> i_seed (parameters response) = p_seed params"
  using assms
  by (auto simp: attempt_def Let_def split: sum.splits option.splits)

lemma attempt_calls:
  assumes "attempt E X params provider = (r, calls)"
  shows "length calls \<le> 1 \<and> (\<forall>c \<in> set calls. c_provider c = provider \<and> c_params c = params)"
  using assms
  by (auto simp: attempt_def Let_def split: sum.splits option.splits)

lemma attempt_calls_subseq:
  assumes "attempt E X params provider = (r, calls)"
  shows "subseq (map c_provider calls) [provider]"
proof -
  from attempt_calls [OF assms] have "calls = [] \<or> (\<exists>c. calls = [c] \<and> c_provider c = provider)"
    by (cases calls) (auto simp: length_Suc_conv)
  then show ?thesis by auto
qed

lemma provider_loop_calls:
  "provider_loop E X params ps le = (r, calls) \<Longrightarrow>
   subseq (map c_provider calls) ps \<and> (\<forall>c \<in> set calls. c_params c = params)"
proof (induction ps arbitrary: le r calls)
  case Nil
  then show ?case by simp
next
  case (Cons p ps)
  obtain a cs where a: "attempt E X params p = (a, cs)" by (cases "attempt E X params p")
  note ac = attempt_calls [OF a] attempt_calls_subseq [OF a]
  show ?case
  proof (cases a)
    case (Inr response)
    with Cons.prems a have "calls = cs" by simp
    with ac show ?thesis
      by (metis append_Nil2 list_emb_append_mono append_Cons append_Nil list_emb_Nil)
  next
    case (Inl e)
    obtain r' cs' where l: "provider_loop E X params ps (Some (e_str E e)) = (r', cs')"
      by (cases "provider_loop E X params ps (Some (e_str E e))")
    with Cons.prems a Inl have eq: "calls = cs @ cs'" "r = r'" by simp_all
    from Cons.IH [OF l] have ih: "subseq (map c_provider cs') ps" "\<forall>c \<in> set cs'. c_params c = params"
      by simp_all
    have "subseq (map c_provider cs @ map c_provider cs') ([p] @ ps)"
      using ac(2) ih(1) by (rule list_emb_append_mono)
    with ih(2) ac(1) eq show ?thesis by auto
  qed
qed


lemma provider_loop_success:
  "provider_loop E X params ps le = (Inr response, calls) \<Longrightarrow>
   \<exists>pre p post cs. ps = pre @ p # post
     \<and> (\<forall>q \<in> set pre. isl (fst (attempt E X params q)))
     \<and> attempt E X params p = (Inr response, cs)
     \<and> calls = concat (map (\<lambda>q. snd (attempt E X params q)) pre) @ cs"
proof (induction ps arbitrary: le calls)
  case Nil
  then show ?case by simp
next
  case (Cons p ps)
  obtain a cs where a: "attempt E X params p = (a, cs)" by (cases "attempt E X params p")
  show ?case
  proof (cases a)
    case (Inr r)
    with Cons.prems a have "r = response" "calls = cs" by simp_all
    with a Inr have "p # ps = [] @ p # ps \<and> (\<forall>q \<in> set []. isl (fst (attempt E X params q)))
        \<and> attempt E X params p = (Inr response, cs)
        \<and> calls = concat (map (\<lambda>q. snd (attempt E X params q)) []) @ cs"
      by simp
    then show ?thesis by blast
  next
    case (Inl e)
    obtain r' cs' where l: "provider_loop E X params ps (Some (e_str E e)) = (r', cs')"
      by (cases "provider_loop E X params ps (Some (e_str E e))")
    with Cons.prems a Inl have eq: "calls = cs @ cs'" "r' = Inr response" by simp_all
    from Cons.IH [of "Some (e_str E e)" cs'] l eq(2)
    obtain pre q post cs2 where ih: "ps = pre @ q # post"
        "\<forall>x \<in> set pre. isl (fst (attempt E X params x))"
        "attempt E X params q = (Inr response, cs2)"
        "cs' = concat (map (\<lambda>q. snd (attempt E X params q)) pre) @ cs2"
      by blast
    have "p # ps = (p # pre) @ q # post \<and> (\<forall>x \<in> set (p # pre). isl (fst (attempt E X params x)))
        \<and> attempt E X params q = (Inr response, cs2)
        \<and> calls = concat (map (\<lambda>q. snd (attempt E X params q)) (p # pre)) @ cs2"
      using ih eq(1) a Inl by simp
    then show ?thesis by blast
  qed
qed

lemma provider_loop_failure:
  "(\<forall>p \<in> set ps. isl (fst (attempt E X params p))) \<Longrightarrow>
   fst (provider_loop E X params ps le) =
     Inl (HTTPException 500 (''All providers failed. Last error: '' @
       (if ps = [] then (case le of None \<Rightarrow> ''None'' | Some s \<Rightarrow> s)
        else e_str E (projl (fst (attempt E X params (last ps)))))))"
proof (induction ps arbitrary: le)
  case Nil
  then show ?case by simp
next
  case (Cons p ps)
  obtain a cs where a: "attempt E X params p = (a, cs)" by (cases "attempt E X params p")
  with Cons.prems obtain e where e: "a = Inl e" by (cases a) auto
  obtain r' cs' where l: "provider_loop E X params ps (Some (e_str E e)) = (r', cs')"
    by (cases "provider_loop E X params ps (Some (e_str E e))")
  from Cons.IH [of "Some (e_str E e)"] Cons.prems l
  have "r' = Inl (HTTPException 500 (''All providers failed. Last error: '' @
       (if ps = [] then e_str E e
        else e_str E (projl (fst (attempt E X params (last ps)))))))"
    by simp
  with a e l show ?case by simp
qed

lemma provider_loop_fail_iff:
  "isl (fst (provider_loop E X params ps le)) = (\<forall>p \<in> set ps. isl (fst (attempt E X params p)))"
proof
  assume "\<forall>p \<in> set ps. isl (fst (attempt E X params p))"
  from provider_loop_failure [OF this] show "isl (fst (provider_loop E X params ps le))" by simp
next
  assume f: "isl (fst (provider_loop E X params ps le))"
  then show "\<forall>p \<in> set ps. isl (fst (attempt E X params p))"
  proof (induction ps arbitrary: le)
    case Nil
    then show ?case by simp
  next
    case (Cons p ps)
    obtain a cs where a: "attempt E X params p = (a, cs)" by (cases "attempt E X params p")
    show ?case
    proof (cases a)
      case (Inr r)
      with a Cons.prems show ?thesis by simp
    next
      case (Inl e)
      with a Cons.prems have "isl (fst (provider_loop E X params ps (Some (e_str E e))))"
        by (simp split: prod.splits)
      from Cons.IH [OF this] a Inl show ?thesis by simp
    qed
  qed
qed

lemma provider_list_distinct: "distinct provider_list"
  by (simp add: provider_list_def)

lemma subseq_distinct:
  "subseq xs ys \<Longrightarrow> distinct ys \<Longrightarrow> distinct xs"
  by (rule subseqs_distinctD [of xs ys]) simp_all

lemmas example_defs =
  txt2img_generation_def choose_seed_def randint_def make_params_def provider_list_def
  attempt_def build_lora_list_def get_max_loras_def validate_image_bytes_def
  example_env_def example_ctx_def example_request_def example_clients_def example_rng_def Let_def

text \<open>
  Claim C2. In one run of the generation step, with \<open>params\<close> the parameters built
  before the loop: the providers whose client was invoked are, in order, a subsequence of
  the fixed provider list, each at most once; the step ends in the HTTP exception exactly
  when the attempt of every provider fails, and the exception then has status 500 and the
  text \<^verbatim>\<open>All providers failed. Last error:\<close> followed by the error of the last provider
  of the list; and a response is that of the first provider of the list whose attempt
  succeeds, whose client returned bytes that pass the validator and are the image of the
  response, whose call is the last one made, and which the response names together with
  the number of LoRAs handed to that call.
\<close>

theorem txt2img_first_success:
  assumes "txt2img_generation E X g = ((result, calls), g')"
    and "params = make_params (x_request X) (fst (choose_seed (x_request X) g))"
  shows "subseq (map c_provider calls) provider_list
     \<and> distinct (map c_provider calls)
     \<and> (isl result = (\<forall>p \<in> set provider_list. isl (fst (attempt E X params p))))
     \<and> (\<forall>h. result = Inl h \<longrightarrow>
          (\<exists>e. fst (attempt E X params ''pixeldojo'') = Inl e
             \<and> h = HTTPException 500 (''All providers failed. Last error: '' @ e_str E e)))
     \<and> (\<forall>response. result = Inr response \<longrightarrow>
          (\<exists>pre post client bs.
              provider_list = pre @ i_provider (parameters response) # post
            \<and> (\<forall>q \<in> set pre. isl (fst (attempt E X params q)))
            \<and> fst (attempt E X params (i_provider (parameters response))) = Inr response
            \<and> map_of (e_clients E) (i_provider (parameters response)) = Some client
            \<and> client (x_full_prompt X) (x_full_negative X) (c_loras (last calls)) params = Inr bs
            \<and> validate_image_bytes bs (i_provider (parameters response)) = Inr ()
            \<and> images response = [e_b64encode E bs]
            \<and> calls \<noteq> []
            \<and> c_provider (last calls) = i_provider (parameters response)
            \<and> i_loras_used (parameters response) = length (c_loras (last calls))))"
proof -
  from assms have loop: "provider_loop E X params provider_list None = (result, calls)"
    by (simp add: txt2img_generation_def split: prod.splits)
  from provider_loop_calls [OF loop] have sub: "subseq (map c_provider calls) provider_list"
    by simp
  from subseq_distinct [OF sub provider_list_distinct]
  have dist: "distinct (map c_provider calls)" .
  have iff: "isl result = (\<forall>p \<in> set provider_list. isl (fst (attempt E X params p)))"
    using provider_loop_fail_iff [of E X params provider_list None] loop by simp
  have fail: "\<forall>h. result = Inl h \<longrightarrow>
          (\<exists>e. fst (attempt E X params ''pixeldojo'') = Inl e
             \<and> h = HTTPException 500 (''All providers failed. Last error: '' @ e_str E e))"
  proof (intro allI impI)
    fix h assume h: "result = Inl h"
    with iff have all: "\<forall>p \<in> set provider_list. isl (fst (attempt E X params p))" by simp
    then have "isl (fst (attempt E X params ''pixeldojo''))" by (simp add: provider_list_def)
    then obtain e where e: "fst (attempt E X params ''pixeldojo'') = Inl e"
      by (cases "fst (attempt E X params ''pixeldojo'')") auto
    from provider_loop_failure [OF all, of None] loop h e
    have "h = HTTPException 500 (''All providers failed. Last error: '' @ e_str E e)"
      by (simp add: provider_list_def)
    with e show "\<exists>e. fst (attempt E X params ''pixeldojo'') = Inl e
             \<and> h = HTTPException 500 (''All providers failed. Last error: '' @ e_str E e)"
      by blast
  qed
  have succ: "\<forall>response. result = Inr response \<longrightarrow>
          (\<exists>pre post client bs.
              provider_list = pre @ i_provider (parameters response) # post
            \<and> (\<forall>q \<in> set pre. isl (fst (attempt E X params q)))
            \<and> fst (attempt E X params (i_provider (parameters response))) = Inr response
            \<and> map_of (e_clients E) (i_provider (parameters response)) = Some client
            \<and> client (x_full_prompt X) (x_full_negative X) (c_loras (last calls)) params = Inr bs
            \<and> validate_image_bytes bs (i_provider (parameters response)) = Inr ()
            \<and> images response = [e_b64encode E bs]
            \<and> calls \<noteq> []
            \<and> c_provider (last calls) = i_provider (parameters response)
            \<and> i_loras_used (parameters response) = length (c_loras (last calls)))"
  proof (intro allI impI)
    fix response assume r: "result = Inr response"
    from provider_loop_success [of E X params provider_list None response calls] loop r
    obtain pre p post cs where s: "provider_list = pre @ p # post"
        "\<forall>q \<in> set pre. isl (fst (attempt E X params q))"
        "attempt E X params p = (Inr response, cs)"
        "calls = concat (map (\<lambda>q. snd (attempt E X params q)) pre) @ cs"
      by blast
    from attempt_success [OF s(3)]
    obtain client lora_list bs where t:
        "map_of (e_clients E) p = Some client"
        "client (x_full_prompt X) (x_full_negative X) lora_list params = Inr bs"
        "validate_image_bytes bs p = Inr ()"
        "cs = [\<lparr>c_provider = p, c_prompt = x_full_prompt X,
                 c_negative_prompt = x_full_negative X, c_loras = lora_list, c_params = params\<rparr>]"
        "images response = [e_b64encode E bs]"
        "i_provider (parameters response) = p"
        "i_loras_used (parameters response) = length lora_list"
      by blast
    from s(4) t(4) have l: "calls \<noteq> []" "c_provider (last calls) = p" "c_loras (last calls) = lora_list"
      by simp_all
    from s t l show "\<exists>pre post client bs.
              provider_list = pre @ i_provider (parameters response) # post
            \<and> (\<forall>q \<in> set pre. isl (fst (attempt E X params q)))
            \<and> fst (attempt E X params (i_provider (parameters response))) = Inr response
            \<and> map_of (e_clients E) (i_provider (parameters response)) = Some client
            \<and> client (x_full_prompt X) (x_full_negative X) (c_loras (last calls)) params = Inr bs
            \<and> validate_image_bytes bs (i_provider (parameters response)) = Inr ()
            \<and> images response = [e_b64encode E bs]
            \<and> calls \<noteq> []
            \<and> c_provider (last calls) = i_provider (parameters response)
            \<and> i_loras_used (parameters response) = length (c_loras (last calls))"
      by (metis fst_conv)
  qed
  from sub dist iff fail succ show ?thesis by blast
qed


text \<open>
  With the example clients the first two providers fail, the third succeeds and no
  further client is invoked; when every client raises, the result is the status 500 with
  the text of the last error.
\<close>

theorem txt2img_first_success_witness:
  "map c_provider (snd (fst (txt2img_generation (example_env example_clients) (example_ctx 42) example_rng)))
     = [''runware'', ''hfzerogpu'', ''wavespeed'']
   \<and> \<not> isl (fst (fst (txt2img_generation (example_env example_clients) (example_ctx 42) example_rng)))
   \<and> i_provider (parameters (projr (fst (fst
        (txt2img_generation (example_env example_clients) (example_ctx 42) example_rng))))) = ''wavespeed''
   \<and> i_loras_used (parameters (projr (fst (fst
        (txt2img_generation (example_env example_clients) (example_ctx 42) example_rng))))) = 0
   \<and> fst (fst (txt2img_generation
        (example_env (map (\<lambda>p. (p, \<lambda>a b c d. Inl (ProviderFailure ''down''))) provider_list))
        (example_ctx 42) example_rng))
     = Inl (HTTPException 500 ''All providers failed. Last error: down'')"
  using txt2img_first_success [of "example_env example_clients" "example_ctx 42" example_rng
      "fst (fst (txt2img_generation (example_env example_clients) (example_ctx 42) example_rng))"
      "snd (fst (txt2img_generation (example_env example_clients) (example_ctx 42) example_rng))"
      "snd (txt2img_generation (example_env example_clients) (example_ctx 42) example_rng)"
      "make_params (x_request (example_ctx 42)) (fst (choose_seed (x_request (example_ctx 42)) example_rng))"]
    txt2img_first_success [of
      "example_env (map (\<lambda>p. (p, \<lambda>a b c d. Inl (ProviderFailure ''down''))) provider_list)"
      "example_ctx 42" example_rng
      "fst (fst (txt2img_generation
        (example_env (map (\<lambda>p. (p, \<lambda>a b c d. Inl (ProviderFailure ''down''))) provider_list))
        (example_ctx 42) example_rng))"
      "snd (fst (txt2img_generation
        (example_env (map (\<lambda>p. (p, \<lambda>a b c d. Inl (ProviderFailure ''down''))) provider_list))
        (example_ctx 42) example_rng))"
      "snd (txt2img_generation
        (example_env (map (\<lambda>p. (p, \<lambda>a b c d. Inl (ProviderFailure ''down''))) provider_list))
        (example_ctx 42) example_rng)"
      "make_params (x_request (example_ctx 42)) (fst (choose_seed (x_request (example_ctx 42)) example_rng))"]
  by (simp add: example_defs)

subsection \<open>The seed\<close>

lemma choose_seed_given:
  "rq_seed rq \<noteq> - 1 \<Longrightarrow> choose_seed rq g = (rq_seed rq, g)"
  by (simp add: choose_seed_def)

lemma choose_seed_random:
  "rq_seed rq = - 1 \<Longrightarrow>
   choose_seed rq g = (int (entropy g (draws g) mod 2 ^ 31), g\<lparr>draws := draws g + 1\<rparr>)"
  by (simp add: choose_seed_def randint_def)

lemma drawn_seed_range:
  "0 \<le> int (n mod 2 ^ 31) \<and> int (n mod 2 ^ 31) \<le> 2 ^ 31 - 1"
proof -
  have "n mod 2 ^ 31 < (2 ^ 31 :: nat)" by simp
  then have "int (n mod 2 ^ 31) < 2 ^ 31" by (metis of_nat_less_iff of_nat_numeral of_nat_power)
  then show ?thesis by simp
qed

lemma generation_seed:
  assumes "txt2img_generation E X g = ((result, calls), g')"
  shows "g' = snd (choose_seed (x_request X) g)
     \<and> (\<forall>c \<in> set calls. c_params c = make_params (x_request X) (fst (choose_seed (x_request X) g)))
     \<and> (\<forall>response. result = Inr response \<longrightarrow>
          i_seed (parameters response) = fst (choose_seed (x_request X) g))"
proof -
  define params where "params = make_params (x_request X) (fst (choose_seed (x_request X) g))"
  from assms have loop: "provider_loop E X params provider_list None = (result, calls)"
    and g': "g' = snd (choose_seed (x_request X) g)"
    by (simp_all add: txt2img_generation_def params_def split: prod.splits)
  from provider_loop_calls [OF loop] have c: "\<forall>c \<in> set calls. c_params c = params" by simp
  have r: "\<forall>response. result = Inr response \<longrightarrow> i_seed (parameters response) = p_seed params"
  proof (intro allI impI)
    fix response assume "result = Inr response"
    with provider_loop_success [of E X params provider_list None response calls] loop
    obtain p cs where "attempt E X params p = (Inr response, cs)" by blast
    from attempt_success [OF this] show "i_seed (parameters response) = p_seed params" by blast
  qed
  have "p_seed params = fst (choose_seed (x_request X) g)"
    by (simp add: params_def make_params_def)
  with g' c r show ?thesis by (simp add: params_def)
qed

text \<open>
  Claim C8. When the seed of the request is not -1, no random value is drawn, and every
  invocation of a client carries the parameters of the request with that seed, which is
  also the seed the response reports. When the seed is -1, exactly one random value is
  drawn, before the loop: the seed is the next value of the generator, brought into the
  range from 0 to \<open>2^31 - 1\<close>; the generator has moved on by that one value; every
  invocation carries this seed and the response reports it.
\<close>

theorem seed_shared_across_attempts:
  assumes "txt2img_generation E X g = ((result, calls), g')"
  shows "(rq_seed (x_request X) \<noteq> - 1 \<longrightarrow>
            g' = g
          \<and> (\<forall>c \<in> set calls. c_params c = make_params (x_request X) (rq_seed (x_request X)))
          \<and> (\<forall>response. result = Inr response \<longrightarrow>
               i_seed (parameters response) = rq_seed (x_request X)))
       \<and> (rq_seed (x_request X) = - 1 \<longrightarrow>
            g' = g\<lparr>draws := draws g + 1\<rparr>
          \<and> fst (choose_seed (x_request X) g) = int (entropy g (draws g) mod 2 ^ 31)
          \<and> 0 \<le> int (entropy g (draws g) mod 2 ^ 31)
          \<and> int (entropy g (draws g) mod 2 ^ 31) \<le> 2 ^ 31 - 1
          \<and> (\<forall>c \<in> set calls.
                c_params c = make_params (x_request X) (int (entropy g (draws g) mod 2 ^ 31)))
          \<and> (\<forall>response. result = Inr response \<longrightarrow>
                i_seed (parameters response) = int (entropy g (draws g) mod 2 ^ 31)))"
proof (intro conjI impI)
  assume s: "rq_seed (x_request X) \<noteq> - 1"
  from generation_seed [OF assms] choose_seed_given [OF s, of g]
  show "g' = g"
    and "\<forall>c \<in> set calls. c_params c = make_params (x_request X) (rq_seed (x_request X))"
    and "\<forall>response. result = Inr response \<longrightarrow> i_seed (parameters response) = rq_seed (x_request X)"
    by simp_all
next
  assume s: "rq_seed (x_request X) = - 1"
  note c = choose_seed_random [OF s, of g]
  from generation_seed [OF assms] c
  show "g' = g\<lparr>draws := draws g + 1\<rparr>"
    and "fst (choose_seed (x_request X) g) = int (entropy g (draws g) mod 2 ^ 31)"
    and "\<forall>c \<in> set calls.
           c_params c = make_params (x_request X) (int (entropy g (draws g) mod 2 ^ 31))"
    and "\<forall>response. result = Inr response \<longrightarrow>
           i_seed (parameters response) = int (entropy g (draws g) mod 2 ^ 31)"
    by simp_all
  from drawn_seed_range [of "entropy g (draws g)"]
  show "0 \<le> int (entropy g (draws g) mod 2 ^ 31)"
    and "int (entropy g (draws g) mod 2 ^ 31) \<le> 2 ^ 31 - 1"
    by simp_all
qed

text \<open>
  With seed -1 the three invocations and the response carry the one drawn seed, 5; with
  seed 42 they carry 42 and nothing is drawn.
\<close>

theorem seed_shared_across_attempts_witness:
  "map (\<lambda>c. p_seed (c_params c))
       (snd (fst (txt2img_generation (example_env example_clients) (example_ctx (- 1)) example_rng)))
     = [5, 5, 5]
   \<and> i_seed (parameters (projr (fst (fst
        (txt2img_generation (example_env example_clients) (example_ctx (- 1)) example_rng))))) = 5
   \<and> draws (snd (txt2img_generation (example_env example_clients) (example_ctx (- 1)) example_rng)) = 1
   \<and> map (\<lambda>c. p_seed (c_params c))
       (snd (fst (txt2img_generation (example_env example_clients) (example_ctx 42) example_rng)))
     = [42, 42, 42]
   \<and> i_seed (parameters (projr (fst (fst
        (txt2img_generation (example_env example_clients) (example_ctx 42) example_rng))))) = 42
   \<and> draws (snd (txt2img_generation (example_env example_clients) (example_ctx 42) example_rng)) = 0"
  using seed_shared_across_attempts [of "example_env example_clients" "example_ctx (- 1)" example_rng
      "fst (fst (txt2img_generation (example_env example_clients) (example_ctx (- 1)) example_rng))"
      "snd (fst (txt2img_generation (example_env example_clients) (example_ctx (- 1)) example_rng))"
      "snd (txt2img_generation (example_env example_clients) (example_ctx (- 1)) example_rng)"]
    seed_shared_across_attempts [of "example_env example_clients" "example_ctx 42" example_rng
      "fst (fst (txt2img_generation (example_env example_clients) (example_ctx 42) example_rng))"
      "snd (fst (txt2img_generation (example_env example_clients) (example_ctx 42) example_rng))"
      "snd (txt2img_generation (example_env example_clients) (example_ctx 42) example_rng)"]
  by (simp add: example_defs)

subsection \<open>Image data shorter than four bytes\<close>

text \<open>
  Claim C10. The validator rejects every byte string shorter than four bytes with the
  "too small" error; the attempt of a provider whose client returns such bytes fails with
  that error; and an attempt that succeeds returned at least four bytes.
\<close>

theorem too_small_never_succeeds:
  "(length data < 4 \<longrightarrow> validate_image_bytes data p = Inl (ImageTooSmall p (length data)))
   \<and> (map_of (e_clients E) provider = Some client
        \<and> build_lora_list (provider_based_lora_url_pruning (x_matched_loras X) provider)
             (get_max_loras (e_config E) provider) = Inr lora_list
        \<and> client (x_full_prompt X) (x_full_negative X) lora_list params = Inr data
        \<and> length data < 4
      \<longrightarrow> fst (attempt E X params provider) = Inl (ImageTooSmall provider (length data)))
   \<and> (attempt E X params provider = (Inr response, calls) \<longrightarrow>
        (\<exists>client lora_list bs. map_of (e_clients E) provider = Some client
           \<and> client (x_full_prompt X) (x_full_negative X) lora_list params = Inr bs
           \<and> 4 \<le> length bs \<and> images response = [e_b64encode E bs]))"
proof (intro conjI impI)
  assume "length data < 4"
  then show "validate_image_bytes data p = Inl (ImageTooSmall p (length data))"
    by (rule validate_short)
next
  assume a: "map_of (e_clients E) provider = Some client
        \<and> build_lora_list (provider_based_lora_url_pruning (x_matched_loras X) provider)
             (get_max_loras (e_config E) provider) = Inr lora_list
        \<and> client (x_full_prompt X) (x_full_negative X) lora_list params = Inr data
        \<and> length data < 4"
  then have "validate_image_bytes data provider = Inl (ImageTooSmall provider (length data))"
    by (simp add: validate_short)
  with a show "fst (attempt E X params provider) = Inl (ImageTooSmall provider (length data))"
    by (simp add: attempt_def Let_def)
next
  assume "attempt E X params provider = (Inr response, calls)"
  from attempt_success [OF this]
  obtain client lora_list bs where t: "map_of (e_clients E) provider = Some client"
      "client (x_full_prompt X) (x_full_negative X) lora_list params = Inr bs"
      "validate_image_bytes bs provider = Inr ()" "images response = [e_b64encode E bs]"
    by blast
  from t(3) have "4 \<le> length bs"
    by (simp add: validate_image_bytes_def split: if_splits)
  with t show "\<exists>client lora_list bs. map_of (e_clients E) provider = Some client
           \<and> client (x_full_prompt X) (x_full_negative X) lora_list params = Inr bs
           \<and> 4 \<le> length bs \<and> images response = [e_b64encode E bs]"
    by blast
qed

text \<open>
  The bare JPEG magic number \<^verbatim>\<open>FFD8FF\<close> is rejected, also as the answer of a client.
\<close>

theorem too_small_never_succeeds_witness:
  "length [0xFF, 0xD8, 0xFF :: byte] < 4
   \<and> validate_image_bytes [0xFF, 0xD8, 0xFF] ''fal'' = Inl (ImageTooSmall ''fal'' 3)
   \<and> fst (attempt (example_env [(''fal'', \<lambda>a b c d. Inr [0xFF, 0xD8, 0xFF])]) (example_ctx 42)
            (make_params (example_request 42) 42) ''fal'')
       = Inl (ImageTooSmall ''fal'' 3)
   \<and> fst (attempt (example_env example_clients) (example_ctx 42)
            (make_params (example_request 42) 42) ''wavespeed'')
       = Inr (projr (fst (attempt (example_env example_clients) (example_ctx 42)
            (make_params (example_request 42) 42) ''wavespeed'')))"
  using too_small_never_succeeds [of "[0xFF, 0xD8, 0xFF]" "''fal''"
      "example_env [(''fal'', \<lambda>a b c d. Inr [0xFF, 0xD8, 0xFF])]" "''fal''"
      "\<lambda>a b c d. Inr [0xFF, 0xD8, 0xFF]" "example_ctx 42" "[]" "make_params (example_request 42) 42"]
    too_small_never_succeeds [of "[0xFF, 0xD8, 0xFF]" "''fal''"
      "example_env example_clients" "''wavespeed''"
      "\<lambda>a b c d. Inr [0x89, 0x50, 0x4E, 0x47, 0x0D]" "example_ctx 42" "[]" "make_params (example_request 42) 42"
      "projr (fst (attempt (example_env example_clients) (example_ctx 42)
            (make_params (example_request 42) 42) ''wavespeed''))"
      "snd (attempt (example_env example_clients) (example_ctx 42)
            (make_params (example_request 42) 42) ''wavespeed'')"]
  by (simp add: example_defs)

subsection \<open>The Runware resolution cache\<close>


lemma upload_world:
  "snd (upload_lora_to_runware E u w) = w\<lparr>upload_log := upload_log w @ [u]\<rparr>"
  by (auto simp: upload_lora_to_runware_def Let_def split: post_outcome.splits list.splits)

lemma upload_id:
  "upload_lora_to_runware E u w = (Inr rid, w') \<Longrightarrow> rid = fst (generate_air_id_from_url E u)"
  by (auto simp: upload_lora_to_runware_def Let_def split: post_outcome.splits list.splits if_splits)






lemmas example_rw_defs =
  resolve_runware_loras_def save_runware_lora_mapping_def new_entry_def
  load_runware_lora_mapping_def example_world_def
  example_descriptor_def lora_src_def str_truthy_def py_strip_def py_isspace_def
  provider_prefixed_def is_http_url_def upload_lora_to_runware_def example_rw_env_def
  generate_air_id_from_url_def weight_of_def Let_def





lemma resolve_loop_keeps:
  "map_of m u = Some e \<Longrightarrow> runware_id e = fst (generate_air_id_from_url E u) \<Longrightarrow>
   \<exists>e'. map_of (fst (resolve_loop E ds m upd res w)) u = Some e'
        \<and> runware_id e' = fst (generate_air_id_from_url E u)"
proof (induction ds arbitrary: m upd res w e)
  case Nil
  then show ?case by simp
next
  case (Cons d ds)
  have store: "\<exists>e'. map_of (fst (resolve_loop E ds (AList.update k (new_entry E rid w1) m) upd' res' w1)) u = Some e'
        \<and> runware_id e' = fst (generate_air_id_from_url E u)"
    if "upload_lora_to_runware E k w = (Inr rid, w1)" for k rid w1 upd' res'
  proof (cases "u = k")
    case True
    from upload_id [OF that] True
    have "map_of (AList.update k (new_entry E rid w1) m) u = Some (new_entry E rid w1)"
      "runware_id (new_entry E rid w1) = fst (generate_air_id_from_url E u)"
      by (simp_all add: update_conv' new_entry_def)
    then show ?thesis by (rule Cons.IH)
  next
    case False
    with Cons.prems have "map_of (AList.update k (new_entry E rid w1) m) u = Some e"
      by (simp add: update_conv')
    from this Cons.prems(2) show ?thesis by (rule Cons.IH)
  qed
  show ?case
    using Cons.IH [OF Cons.prems] store
    by (auto simp: Let_def split: option.splits sum.splits prod.splits)
qed

lemma resolve_loop_step:
  "(\<exists>r1. resolve_loop E (d # ds) m upd res w = resolve_loop E ds m upd r1 w)
   \<or> (\<exists>k err w1. upload_lora_to_runware E k w = (Inl err, w1)
         \<and> resolve_loop E (d # ds) m upd res w = resolve_loop E ds m upd res w1)
   \<or> (\<exists>k rid w1 r1. upload_lora_to_runware E k w = (Inr rid, w1)
         \<and> resolve_loop E (d # ds) m upd res w
             = resolve_loop E ds (AList.update k (new_entry E rid w1) m) True r1 w1)"
  (is ?thesis)
proof -
  have A: "resolve_loop E (d # ds) m upd res w = resolve_loop E ds m upd r1 w \<Longrightarrow> ?thesis" for r1
    by blast
  have B: "upload_lora_to_runware E k w = (Inl err, w1) \<Longrightarrow>
       resolve_loop E (d # ds) m upd res w = resolve_loop E ds m upd res w1 \<Longrightarrow> ?thesis" for k err w1
    by blast
  have C: "upload_lora_to_runware E k w = (Inr rid, w1) \<Longrightarrow>
       resolve_loop E (d # ds) m upd res w
         = resolve_loop E ds (AList.update k (new_entry E rid w1) m) True r1 w1 \<Longrightarrow> ?thesis"
    for k rid w1 r1
    by blast
  show ?thesis
  proof (cases "lora_src d")
    case None
    show ?thesis by (rule A [of res]) (simp add: None)
  next
    case (Some src)
    define u where "u = py_strip src"
    obtain a w1 where up: "upload_lora_to_runware E u w = (a, w1)"
      by (cases "upload_lora_to_runware E u w")
    show ?thesis
    proof (cases "provider_prefixed u \<or> (CHR '':'' \<in> set u \<and> CHR ''@'' \<in> set u)")
      case True
      show ?thesis
        by (rule A [of "res @ [\<lparr>rl_lora = u, rl_weight = weight_of d\<rparr>]"])
          (use True Some in \<open>auto simp: Let_def u_def\<close>)
    next
      case False
      show ?thesis
      proof (cases "is_http_url u \<and> map_of m u \<noteq> None")
        case True
        then obtain e where e: "map_of m u = Some e" by auto
        show ?thesis
          by (rule A [of "res @ [\<lparr>rl_lora = runware_id e, rl_weight = weight_of d\<rparr>]"])
            (use True False Some e in \<open>auto simp: Let_def u_def\<close>)
      next
        case nohit: False
        show ?thesis
        proof (cases a)
          case (Inl err)
          show ?thesis
            by (rule B [of u err w1])
              (use up Inl nohit False Some in \<open>auto simp: Let_def u_def\<close>)
        next
          case (Inr rid)
          show ?thesis
            by (rule C [of u rid w1 "res @ [\<lparr>rl_lora = rid, rl_weight = weight_of d\<rparr>]"])
              (use up Inr nohit False Some in \<open>auto simp: Let_def u_def\<close>)
        qed
      qed
    qed
  qed
qed

lemma resolve_loop_frame:
  "resolve_loop E ds m upd res w = (m', upd', res', w') \<Longrightarrow>
     write_log w' = write_log w \<and> mapping_file w' = mapping_file w
   \<and> prefix (upload_log w) (upload_log w')
   \<and> (upd \<longrightarrow> upd')
   \<and> (\<not> upd' \<longrightarrow> m' = m)
   \<and> (upd' \<and> \<not> upd \<longrightarrow>
        (\<exists>u \<in> set (drop (length (upload_log w)) (upload_log w')).
           \<exists>e. map_of m' u = Some e \<and> runware_id e = fst (generate_air_id_from_url E u)))"
proof (induction ds arbitrary: m upd res w)
  case Nil
  then show ?case by auto
next
  case (Cons d ds)
  from resolve_loop_step [of E d ds m upd res w]
  consider
    (skip) r1 where "resolve_loop E (d # ds) m upd res w = resolve_loop E ds m upd r1 w"
  | (fail) k err w1 where "upload_lora_to_runware E k w = (Inl err, w1)"
      "resolve_loop E (d # ds) m upd res w = resolve_loop E ds m upd res w1"
  | (store) k rid w1 r1 where "upload_lora_to_runware E k w = (Inr rid, w1)"
      "resolve_loop E (d # ds) m upd res w
         = resolve_loop E ds (AList.update k (new_entry E rid w1) m) True r1 w1"
    by blast
  then show ?case
  proof cases
    case skip
    with Cons.prems have "resolve_loop E ds m upd r1 w = (m', upd', res', w')" by simp
    from Cons.IH [OF this] show ?thesis .
  next
    case fail
    with Cons.prems have l: "resolve_loop E ds m upd res w1 = (m', upd', res', w')" by simp
    from fail(1) upload_world [of E k w] have w1: "w1 = w\<lparr>upload_log := upload_log w @ [k]\<rparr>" by simp
    from Cons.IH [OF l] have ih: "write_log w' = write_log w1" "mapping_file w' = mapping_file w1"
      "prefix (upload_log w1) (upload_log w')" "upd \<longrightarrow> upd'" "\<not> upd' \<longrightarrow> m' = m"
      "upd' \<and> \<not> upd \<longrightarrow>
        (\<exists>u \<in> set (drop (length (upload_log w1)) (upload_log w')).
           \<exists>e. map_of m' u = Some e \<and> runware_id e = fst (generate_air_id_from_url E u))"
      by blast+
    from ih(3) w1 obtain zs where zs: "upload_log w' = upload_log w @ k # zs"
      by (auto simp: prefix_def)
    have sub: "set (drop (length (upload_log w1)) (upload_log w'))
        \<subseteq> set (drop (length (upload_log w)) (upload_log w'))"
      using zs w1 by auto
    from ih w1 zs sub show ?thesis
      by (auto simp: prefix_def)
  next
    case store
    with Cons.prems have l:
      "resolve_loop E ds (AList.update k (new_entry E rid w1) m) True r1 w1 = (m', upd', res', w')"
      by simp
    from store(1) upload_world [of E k w] have w1: "w1 = w\<lparr>upload_log := upload_log w @ [k]\<rparr>" by simp
    from Cons.IH [OF l] have ih: "write_log w' = write_log w1" "mapping_file w' = mapping_file w1"
      "prefix (upload_log w1) (upload_log w')" "upd'"
      by simp_all
    have "map_of (AList.update k (new_entry E rid w1) m) k = Some (new_entry E rid w1)"
      "runware_id (new_entry E rid w1) = fst (generate_air_id_from_url E k)"
      using upload_id [OF store(1)] by (simp_all add: update_conv' new_entry_def)
    from resolve_loop_keeps [OF this, of ds True r1 w1] l
    obtain e' where e': "map_of m' k = Some e'" "runware_id e' = fst (generate_air_id_from_url E k)"
      by auto
    from ih(3) w1 obtain zs where zs: "upload_log w' = upload_log w @ k # zs"
      by (auto simp: prefix_def)
    then have "k \<in> set (drop (length (upload_log w)) (upload_log w'))" by simp
    with e' ih w1 zs show ?thesis
      by (auto simp: prefix_def)
  qed
qed


text \<open>
  What the code does about the write. One call writes the mapping file at most once,
  after the loop over all LoRAs, and what it writes is the mapping the loop ended with.
  It writes exactly when the loop set its \<^verbatim>\<open>updated\<close> flag, that is when it stored an
  entry, and then the mapping holds, for a source uploaded during this call, an entry with
  that source's identifier; the file then has the written content when the write succeeds
  and its old content when it fails. When the loop stored no entry, nothing is written and
  the file keeps its content.
\<close>

lemma mapping_written_at_most_once:
  assumes "resolve_loop E loras (load_runware_lora_mapping w) False [] w = (mapping, updated, resolved, w1)"
  shows "fst (resolve_runware_loras E loras w) = resolved
     \<and> upload_log (snd (resolve_runware_loras E loras w)) = upload_log w1
     \<and> write_log (snd (resolve_runware_loras E loras w))
         = write_log w @ (if updated then [mapping] else [])
     \<and> (\<not> updated \<longrightarrow>
          mapping = load_runware_lora_mapping w
        \<and> mapping_file (snd (resolve_runware_loras E loras w)) = mapping_file w)
     \<and> (updated \<longrightarrow>
          (\<exists>u \<in> set (drop (length (upload_log w)) (upload_log w1)).
             \<exists>e. map_of mapping u = Some e \<and> runware_id e = fst (generate_air_id_from_url E u))
        \<and> mapping_file (snd (resolve_runware_loras E loras w))
            = (if rw_disk_ok E (length (write_log w)) then Some mapping else mapping_file w))"
proof -
  note f = resolve_loop_frame [OF assms]
  from f have wl: "write_log w1 = write_log w" and mf: "mapping_file w1 = mapping_file w"
    by simp_all
  show ?thesis
  proof (cases updated)
    case False
    with assms f wl mf show ?thesis
      by (simp add: resolve_runware_loras_def)
  next
    case True
    with f have ex: "\<exists>u \<in> set (drop (length (upload_log w)) (upload_log w1)).
             \<exists>e. map_of mapping u = Some e \<and> runware_id e = fst (generate_air_id_from_url E u)"
      by simp
    from True assms wl mf have
      "fst (resolve_runware_loras E loras w) = resolved"
      "upload_log (snd (resolve_runware_loras E loras w)) = upload_log w1"
      "write_log (snd (resolve_runware_loras E loras w)) = write_log w @ [mapping]"
      "mapping_file (snd (resolve_runware_loras E loras w))
            = (if rw_disk_ok E (length (write_log w)) then Some mapping else mapping_file w)"
      by (simp_all add: resolve_runware_loras_def save_runware_lora_mapping_def Let_def)
    with True ex show ?thesis by simp
  qed
qed

text \<open>
  Two uploaded URLs and a pass-through in one call: one write, of both entries. A
  pass-through alone: no write.
\<close>

lemma mapping_written_at_most_once_example:
  "write_log (snd (resolve_runware_loras (example_rw_env 200)
       [example_descriptor ''https://hf.co/u/a.safetensors'', example_descriptor ''runware:101@1'',
        example_descriptor ''https://hf.co/u/b.safetensors'']
       (example_world None)))
     = [[(''https://hf.co/u/a.safetensors'',
           \<lparr>runware_id = ''deathwalker:9f86d081884c@1'', uploaded_at = ''2025-01-01T00:00:00''\<rparr>),
         (''https://hf.co/u/b.safetensors'',
           \<lparr>runware_id = ''deathwalker:9f86d081884c@1'', uploaded_at = ''2025-01-01T00:00:00''\<rparr>)]]
   \<and> write_log (snd (resolve_runware_loras (example_rw_env 200)
       [example_descriptor ''runware:101@1''] (example_world None))) = []
   \<and> mapping_file (snd (resolve_runware_loras (example_rw_env 200)
       [example_descriptor ''runware:101@1''] (example_world None))) = None"
  using mapping_written_at_most_once [of "example_rw_env 200"
      "[example_descriptor ''https://hf.co/u/a.safetensors'', example_descriptor ''runware:101@1'',
        example_descriptor ''https://hf.co/u/b.safetensors'']"
      "example_world None"
      "[(''https://hf.co/u/a.safetensors'',
           \<lparr>runware_id = ''deathwalker:9f86d081884c@1'', uploaded_at = ''2025-01-01T00:00:00''\<rparr>),
         (''https://hf.co/u/b.safetensors'',
           \<lparr>runware_id = ''deathwalker:9f86d081884c@1'', uploaded_at = ''2025-01-01T00:00:00''\<rparr>)]"
      True
      "[\<lparr>rl_lora = ''deathwalker:9f86d081884c@1'', rl_weight = 4 / 5\<rparr>,
        \<lparr>rl_lora = ''runware:101@1'', rl_weight = 4 / 5\<rparr>,
        \<lparr>rl_lora = ''deathwalker:9f86d081884c@1'', rl_weight = 4 / 5\<rparr>]"
      "\<lparr>mapping_file = None,
        upload_log = [''https://hf.co/u/a.safetensors'', ''https://hf.co/u/b.safetensors''],
        write_log = []\<rparr>"]
    mapping_written_at_most_once [of "example_rw_env 200"
      "[example_descriptor ''runware:101@1'']" "example_world None" "[]" False
      "[\<lparr>rl_lora = ''runware:101@1'', rl_weight = 4 / 5\<rparr>]"
      "\<lparr>mapping_file = None, upload_log = [], write_log = []\<rparr>"]
  by (simp add: example_rw_defs)

text \<open>
  Claim C9 at an input where the code departs from it. The branch for an HTTP(S) URL
  looks the source up in the mapping and uploads only when it is absent. The last-ditch
  branch, for a source that is neither prefixed, nor an inline spec, nor an HTTP(S) URL,
  uploads and stores without that look. Resolving \<^verbatim>\<open>lora.safetensors\<close> in two calls,
  one after the other: the first call adds its entry and writes the file; the second call
  adds no entry, the mapping still has the one key, and yet the source is uploaded again
  and the file is written again, with a new time stamp. Resolving an HTTPS URL in two
  calls: the second call uploads nothing and writes nothing.
\<close>

theorem last_ditch_rewrites_mapping:
  "write_log (snd (resolve_runware_loras
       ((example_rw_env 200)\<lparr>rw_utcnow := (\<lambda>n. if n = 1 then ''2025-01-01T00:00:00'' else ''2025-06-01T00:00:00'')\<rparr>)
       [example_descriptor ''lora.safetensors'']
       (snd (resolve_runware_loras
          ((example_rw_env 200)\<lparr>rw_utcnow := (\<lambda>n. if n = 1 then ''2025-01-01T00:00:00'' else ''2025-06-01T00:00:00'')\<rparr>)
          [example_descriptor ''lora.safetensors''] (example_world None)))))
     = [[(''lora.safetensors'',
           \<lparr>runware_id = ''deathwalker:9f86d081884c@1'', uploaded_at = ''2025-01-01T00:00:00''\<rparr>)],
        [(''lora.safetensors'',
           \<lparr>runware_id = ''deathwalker:9f86d081884c@1'', uploaded_at = ''2025-06-01T00:00:00''\<rparr>)]]
   \<and> upload_log (snd (resolve_runware_loras
       ((example_rw_env 200)\<lparr>rw_utcnow := (\<lambda>n. if n = 1 then ''2025-01-01T00:00:00'' else ''2025-06-01T00:00:00'')\<rparr>)
       [example_descriptor ''lora.safetensors'']
       (snd (resolve_runware_loras
          ((example_rw_env 200)\<lparr>rw_utcnow := (\<lambda>n. if n = 1 then ''2025-01-01T00:00:00'' else ''2025-06-01T00:00:00'')\<rparr>)
          [example_descriptor ''lora.safetensors''] (example_world None)))))
     = [''lora.safetensors'', ''lora.safetensors'']
   \<and> write_log (snd (resolve_runware_loras
       ((example_rw_env 200)\<lparr>rw_utcnow := (\<lambda>n. if n = 1 then ''2025-01-01T00:00:00'' else ''2025-06-01T00:00:00'')\<rparr>)
       [example_descriptor ''https://hf.co/u/a.safetensors'']
       (snd (resolve_runware_loras
          ((example_rw_env 200)\<lparr>rw_utcnow := (\<lambda>n. if n = 1 then ''2025-01-01T00:00:00'' else ''2025-06-01T00:00:00'')\<rparr>)
          [example_descriptor ''https://hf.co/u/a.safetensors''] (example_world None)))))
     = [[(''https://hf.co/u/a.safetensors'',
           \<lparr>runware_id = ''deathwalker:9f86d081884c@1'', uploaded_at = ''2025-01-01T00:00:00''\<rparr>)]]
   \<and> upload_log (snd (resolve_runware_loras
       ((example_rw_env 200)\<lparr>rw_utcnow := (\<lambda>n. if n = 1 then ''2025-01-01T00:00:00'' else ''2025-06-01T00:00:00'')\<rparr>)
       [example_descriptor ''https://hf.co/u/a.safetensors'']
       (snd (resolve_runware_loras
          ((example_rw_env 200)\<lparr>rw_utcnow := (\<lambda>n. if n = 1 then ''2025-01-01T00:00:00'' else ''2025-06-01T00:00:00'')\<rparr>)
          [example_descriptor ''https://hf.co/u/a.safetensors''] (example_world None)))))
     = [''https://hf.co/u/a.safetensors'']"
  by (simp add: example_rw_defs)

end
